theory Spec2Isabelle
  imports Complex_Main "HOL-Library.Multiset"
begin

section \<open>Data model of the establishment search (places.ts, geolocation.ts)\<close>

text \<open>
  JavaScript numbers are doubles (IEEE 754 binary64). The model takes a number as the
  real number it stands for; NaN and the infinities are not values of the model. The
  rounding of double arithmetic is not defined here: the computation of the mock
  products carries it as the parameter \<open>double\<close> of the runtime, and the distance
  is the haversine formula over the exact reals, which the doubles of the source follow
  only up to rounding (see the text at \<open>calculateDistance\<close>). Strings are character
  lists, one character for each code unit of the source string; the letters outside
  ASCII are written by their codes.
\<close>

record Coordinates =
  lat :: real
  lng :: real

record Place =
  pid :: string
  name :: string
  ptype :: string
  category :: string
  distance :: real
  address :: string
  coordinates :: Coordinates

text \<open>The names of the closed category set, as the string literals of the source.\<close>

definition Mercado :: string where
  "Mercado = ''Mercado''"

definition Farmacia :: string where
  "Farmacia = ''Farm'' @ [CHR 0xE1] @ ''cia''"

definition Lanchonete :: string where
  "Lanchonete = ''Lanchonete''"

definition Cafeteria :: string where
  "Cafeteria = ''Cafeteria''"

definition Padaria :: string where
  "Padaria = ''Padaria''"

definition Restaurante :: string where
  "Restaurante = ''Restaurante''"

definition Outros :: string where
  "Outros = ''Outros''"

lemmas category_names =
  Mercado_def Farmacia_def Lanchonete_def Cafeteria_def Padaria_def Restaurante_def Outros_def

subsection \<open>Category table and tag mapping\<close>

text \<open>
  \<open>CATEGORY_TAGS\<close> is an object literal; \<open>Object.entries\<close> walks its keys in
  insertion order, so the table is an association list in the order of the source.
\<close>

definition CATEGORY_TAGS :: "(string \<times> string list) list" where
  "CATEGORY_TAGS =
    [(Mercado, [''supermarket'', ''convenience'', ''grocery'']),
     (Farmacia, [''pharmacy'', ''chemist'']),
     (Lanchonete, [''fast_food'', ''restaurant'']),
     (Cafeteria, [''cafe'', ''coffee_shop'']),
     (Padaria, [''bakery'']),
     (Restaurante, [''restaurant''])]"

text \<open>
  The tags of an OSM element: a partial map from tag keys to string values. A key that
  is absent reads as \<open>undefined\<close>, which no tag list includes.
\<close>

type_synonym osm_tags = "string \<rightharpoonup> string"

definition array_includes :: "string list \<Rightarrow> string option \<Rightarrow> bool" where
  "array_includes tagList v = (case v of None \<Rightarrow> False | Some s \<Rightarrow> s \<in> set tagList)"

definition tag_match :: "string option \<Rightarrow> string option \<Rightarrow> string \<times> string list \<Rightarrow> bool" where
  "tag_match shop amenity entry = (array_includes (snd entry) shop \<or> array_includes (snd entry) amenity)"

text \<open>The \<open>for ... of Object.entries(CATEGORY_TAGS)\<close> loop with its early return.\<close>

fun category_loop :: "(string \<times> string list) list \<Rightarrow> string option \<Rightarrow> string option \<Rightarrow> string" where
  "category_loop [] shop amenity = Outros"
| "category_loop ((cat, tagList) # rest) shop amenity =
     (if array_includes tagList shop \<or> array_includes tagList amenity then cat
      else category_loop rest shop amenity)"

definition getCategoryFromTags :: "osm_tags \<Rightarrow> string" where
  "getCategoryFromTags tags = category_loop CATEGORY_TAGS (tags ''shop'') (tags ''amenity'')"

subsection \<open>The JavaScript runtime as a parameter\<close>

text \<open>
  What the source takes from its runtime is a parameter of the model:
  \<^item> \<open>random\<close>: the successive results of \<open>Math.random()\<close>, counted from the
    call of the modelled function; each lies in the interval from 0 (included) to 1
    (excluded), which the theorems that need it assume;
  \<^item> \<open>sort_random\<close>: \<open>Array.prototype.sort\<close> run with the comparator
    \<open>() => Math.random() - 0.5\<close>. The comparator is not consistent, so the order of
    the result is implementation-defined; the engine is given the draws that follow and
    returns the reordered array with the number of draws its comparisons consumed;
  \<^item> \<open>toString\<close>: the conversion of a number to a string in a template literal;
  \<^item> \<open>double\<close>: the rounding of a real number to the nearest double. A decimal
    literal of the source denotes the double nearest to it, and \<open>+\<close>, \<open>*\<close> and
    \<open>/\<close> return the double nearest to the exact result. The theorems that need a
    property of the rounding (it is monotone, it keeps 0 and every double) assume it.
\<close>

record BaseProduct =
  bname :: string
  basePrice :: real

record runtime =
  random :: "nat \<Rightarrow> real"
  sort_random :: "(nat \<Rightarrow> real) \<Rightarrow> BaseProduct list \<Rightarrow> BaseProduct list \<times> nat"
  toString :: "real \<Rightarrow> string"
  double :: "real \<Rightarrow> real"

text \<open>
  A concrete engine: the insertion sort that runs on short arrays, each comparison being
  one draw. \<open>insert_random\<close> walks the sorted prefix from its right end (the prefix is
  kept reversed) and moves an entry one place to the right while the comparator's result
  \<open>draw - 0.5\<close> is positive.
\<close>

fun insert_random :: "(nat \<Rightarrow> real) \<Rightarrow> nat \<Rightarrow> 'a \<Rightarrow> 'a list \<Rightarrow> 'a list \<times> nat" where
  "insert_random rnd k element [] = ([element], k)"
| "insert_random rnd k element (tmp # rest) =
     (if rnd k - 0.5 > 0
      then (case insert_random rnd (Suc k) element rest of (r, k') \<Rightarrow> (tmp # r, k'))
      else (element # tmp # rest, Suc k))"

fun insertion_loop :: "(nat \<Rightarrow> real) \<Rightarrow> nat \<Rightarrow> 'a list \<Rightarrow> 'a list \<Rightarrow> 'a list \<times> nat" where
  "insertion_loop rnd k prefix [] = (rev prefix, k)"
| "insertion_loop rnd k prefix (element # rest) =
     (case insert_random rnd k element prefix of (prefix', k') \<Rightarrow> insertion_loop rnd k' prefix' rest)"

definition insertion_sort_random :: "(nat \<Rightarrow> real) \<Rightarrow> 'a list \<Rightarrow> 'a list \<times> nat" where
  "insertion_sort_random rnd xs = insertion_loop rnd 0 [] xs"

subsection \<open>Distance (geolocation.ts)\<close>

text \<open>
  The haversine formula as the source writes it, over the exact reals. The source
  evaluates it in doubles, so its result can differ from this one by rounding. The
  difference is not always small: for two nearly antipodal points the sum \<open>a\<close>,
  which is at most 1 over the reals, can come out as 1.0000000000000002 in doubles;
  then \<open>1 - a\<close> is negative, its square root is NaN, and the source returns NaN
  where this formula gives about 20015 km. No theorem about the search depends on the
  value of a distance that the source computes.
\<close>

definition toRad :: "real \<Rightarrow> real" where
  "toRad degrees = degrees * (pi / 180)"

text \<open>\<open>Math.atan2 y x\<close>: the angle of the point \<open>(x, y)\<close>, in the interval from \<open>-pi\<close> to \<open>pi\<close>.\<close>

definition atan2 :: "real \<Rightarrow> real \<Rightarrow> real" where
  "atan2 y x =
     (if 0 < x then arctan (y / x)
      else if x < 0 then (if 0 \<le> y then arctan (y / x) + pi else arctan (y / x) - pi)
      else if 0 < y then pi / 2
      else if y < 0 then - (pi / 2)
      else 0)"

text \<open>\<open>Math.round\<close>: the nearest integer, a tie going up.\<close>

definition js_round :: "real \<Rightarrow> real" where
  "js_round x = of_int \<lfloor>x + 1 / 2\<rfloor>"

definition calculateDistance :: "Coordinates \<Rightarrow> Coordinates \<Rightarrow> real" where
  "calculateDistance coord1 coord2 =
     (let R = 6371;
          dLat = toRad (lat coord2 - lat coord1);
          dLng = toRad (lng coord2 - lng coord1);
          a = sin (dLat / 2) * sin (dLat / 2) +
              cos (toRad (lat coord1)) * cos (toRad (lat coord2)) *
              sin (dLng / 2) * sin (dLng / 2);
          c = 2 * atan2 (sqrt a) (sqrt (1 - a));
          d = R * c
      in js_round (d * 10) / 10)"

subsection \<open>Place search (places.ts)\<close>

text \<open>\<open>Array.prototype.join\<close> on strings.\<close>

fun join :: "string \<Rightarrow> string list \<Rightarrow> string" where
  "join sep [] = []"
| "join sep [x] = x"
| "join sep (x # y # ys) = x @ sep @ join sep (y # ys)"

text \<open>
  A tag value counts as present when it is defined and not the empty string;
  \<open>push_if\<close> is one \<open>if (tags[key]) parts.push(tags[key])\<close> of \<open>formatAddress\<close>.
\<close>

definition truthy :: "string option \<Rightarrow> bool" where
  "truthy v = (case v of None \<Rightarrow> False | Some s \<Rightarrow> s \<noteq> [])"

definition push_if :: "osm_tags \<Rightarrow> string \<Rightarrow> string list \<Rightarrow> string list" where
  "push_if tags key parts = (if truthy (tags key) then parts @ [the (tags key)] else parts)"

definition formatAddress :: "osm_tags \<Rightarrow> string" where
  "formatAddress tags =
     (let parts = push_if tags ''addr:city''
                   (push_if tags ''addr:neighbourhood''
                     (push_if tags ''addr:housenumber''
                       (push_if tags ''addr:street'' [])))
      in if length parts > 0 then join '', '' parts
         else ''Endere'' @ [CHR 0xE7] @ ''o n'' @ [CHR 0xE3] @ ''o dispon'' @ [CHR 0xED] @ ''vel'')"

text \<open>An element of the Overpass answer.\<close>

record Element =
  el_id :: real
  el_lat :: real
  el_lon :: real
  el_tags :: "osm_tags option"

text \<open>
  How the exchange with the Overpass API ends: \<open>fetch\<close> rejects, the response is not
  \<open>ok\<close>, the body is not JSON with an \<open>elements\<close> array, or the elements arrive.
  The query text sent (built from the tag table, the radius and the coordinates) is not
  part of the model.
\<close>

datatype overpass = FetchRejected | NotOk | BadBody | Elements "Element list"

record MockEntry =
  mname :: string
  mtype :: string
  baseDistance :: real

definition mockData :: "MockEntry list" where
  "mockData =
    [\<lparr>mname = ''Supermercado Economia'', mtype = Mercado, baseDistance = 0.5\<rparr>,
     \<lparr>mname = ''Farm'' @ [CHR 0xE1] @ ''cia Sa'' @ [CHR 0xFA] @ ''de+'', mtype = Farmacia, baseDistance = 0.8\<rparr>,
     \<lparr>mname = ''Lanchonete Sabor & Cia'', mtype = Lanchonete, baseDistance = 1.2\<rparr>,
     \<lparr>mname = ''Mercado Pre'' @ [CHR 0xE7] @ ''o Bom'', mtype = Mercado, baseDistance = 1.5\<rparr>,
     \<lparr>mname = ''Caf'' @ [CHR 0xE9] @ '' Aroma'', mtype = Cafeteria, baseDistance = 0.3\<rparr>,
     \<lparr>mname = ''Padaria P'' @ [CHR 0xE3] @ ''o Quente'', mtype = Padaria, baseDistance = 0.6\<rparr>,
     \<lparr>mname = ''Farm'' @ [CHR 0xE1] @ ''cia Popular'', mtype = Farmacia, baseDistance = 1.0\<rparr>,
     \<lparr>mname = ''Restaurante Bom Sabor'', mtype = Restaurante, baseDistance = 0.9\<rparr>]"

definition mock_place :: "runtime \<Rightarrow> Coordinates \<Rightarrow> MockEntry \<times> nat \<Rightarrow> Place" where
  "mock_place rt coords = (\<lambda>(item, index).
     \<lparr>pid = ''mock-'' @ toString rt (of_nat index),
      name = mname item,
      ptype = mtype item,
      category = mtype item,
      distance = baseDistance item,
      address = ''Rua Exemplo, '' @ toString rt (of_nat (100 + index * 50)),
      coordinates =
        \<lparr>lat = lat coords + (random rt (2 * index) - 0.5) * 0.02,
         lng = lng coords + (random rt (2 * index + 1) - 0.5) * 0.02\<rparr>\<rparr>)"

definition getMockPlaces :: "runtime \<Rightarrow> Coordinates \<Rightarrow> Place list" where
  "getMockPlaces rt coords = map (mock_place rt coords) (zip mockData [0 ..< length mockData])"

text \<open>
  The filter keeps the elements that have tags with a name; \<open>element_place\<close> is the
  callback of the \<open>map\<close> that follows and is applied to these elements only, so the
  tags and the name it reads are there.
\<close>

definition has_name :: "Element \<Rightarrow> bool" where
  "has_name element = (case el_tags element of None \<Rightarrow> False | Some tags \<Rightarrow> truthy (tags ''name''))"

definition element_place :: "runtime \<Rightarrow> Coordinates \<Rightarrow> Element \<Rightarrow> Place" where
  "element_place rt coords element =
     (let tags = the (el_tags element);
          placeCoords = \<lparr>lat = el_lat element, lng = el_lon element\<rparr>;
          dist = calculateDistance coords placeCoords;
          cat = getCategoryFromTags tags
      in \<lparr>pid = toString rt (el_id element),
          name = the (tags ''name''),
          ptype = cat,
          category = cat,
          distance = dist,
          address = formatAddress tags,
          coordinates = placeCoords\<rparr>)"

text \<open>
  The comparator \<open>a.distance - b.distance\<close> is consistent and the sort of the language
  is stable: the stable sort by the key \<open>distance\<close>. Every failure inside the
  \<open>try\<close> block ends in the \<open>catch\<close> that returns the mock places.
\<close>

definition searchNearbyPlaces :: "runtime \<Rightarrow> overpass \<Rightarrow> Coordinates \<Rightarrow> Place list" where
  "searchNearbyPlaces rt response coords =
     (case response of
        Elements elements \<Rightarrow>
          take 20 (sort_key distance (map (element_place rt coords) (filter has_name elements)))
      | _ \<Rightarrow> getMockPlaces rt coords)"

subsection \<open>Products (places.ts)\<close>

datatype confidence = high | medium | low

record Product =
  product_id :: string
  product_name :: string
  price :: real
  store :: string
  product_distance :: string
  product_category :: string
  source :: "string option"
  lastUpdated :: "string option"
  confidence :: "confidence option"
  isReal :: "bool option"

definition Mercado_products :: "BaseProduct list" where
  "Mercado_products =
    [\<lparr>bname = ''Arroz Tipo 1 5kg'', basePrice = 24.90\<rparr>,
     \<lparr>bname = ''Feij'' @ [CHR 0xE3] @ ''o Carioca 1kg'', basePrice = 8.50\<rparr>,
     \<lparr>bname = [CHR 0xD3] @ ''leo de Soja 900ml'', basePrice = 7.90\<rparr>,
     \<lparr>bname = ''A'' @ [CHR 0xE7] @ [CHR 0xFA] @ ''car Cristal 1kg'', basePrice = 4.90\<rparr>,
     \<lparr>bname = ''Caf'' @ [CHR 0xE9] @ '' Torrado 500g'', basePrice = 14.90\<rparr>,
     \<lparr>bname = ''Leite Integral 1L'', basePrice = 5.50\<rparr>,
     \<lparr>bname = ''Macarr'' @ [CHR 0xE3] @ ''o Espaguete 500g'', basePrice = 3.90\<rparr>,
     \<lparr>bname = ''Farinha de Trigo 1kg'', basePrice = 5.50\<rparr>,
     \<lparr>bname = ''Sal Refinado 1kg'', basePrice = 2.50\<rparr>,
     \<lparr>bname = ''Molho de Tomate 340g'', basePrice = 3.20\<rparr>]"

definition Farmacia_products :: "BaseProduct list" where
  "Farmacia_products =
    [\<lparr>bname = ''Dipirona S'' @ [CHR 0xF3] @ ''dica 500mg'', basePrice = 9.90\<rparr>,
     \<lparr>bname = ''Vitamina C 1g'', basePrice = 18.50\<rparr>,
     \<lparr>bname = ''Protetor Solar FPS 50'', basePrice = 48.90\<rparr>,
     \<lparr>bname = ''Paracetamol 750mg'', basePrice = 11.50\<rparr>,
     \<lparr>bname = [CHR 0xC1] @ ''lcool Gel 70% 500ml'', basePrice = 14.90\<rparr>,
     \<lparr>bname = ''Ibuprofeno 600mg'', basePrice = 15.90\<rparr>,
     \<lparr>bname = ''Esmalte Colorido'', basePrice = 7.90\<rparr>,
     \<lparr>bname = ''Shampoo Anticaspa 400ml'', basePrice = 22.90\<rparr>,
     \<lparr>bname = ''Fralda Descart'' @ [CHR 0xE1] @ ''vel M'', basePrice = 42.90\<rparr>,
     \<lparr>bname = ''Term'' @ [CHR 0xF4] @ ''metro Digital'', basePrice = 28.90\<rparr>]"

definition Lanchonete_products :: "BaseProduct list" where
  "Lanchonete_products =
    [\<lparr>bname = ''X-Burger Artesanal'', basePrice = 22.90\<rparr>,
     \<lparr>bname = ''Refrigerante Lata 350ml'', basePrice = 6.50\<rparr>,
     \<lparr>bname = ''Batata Frita Grande'', basePrice = 15.90\<rparr>,
     \<lparr>bname = ''Hot Dog Completo'', basePrice = 12.50\<rparr>,
     \<lparr>bname = ''Suco Natural 500ml'', basePrice = 10.90\<rparr>,
     \<lparr>bname = ''X-Salada'', basePrice = 18.90\<rparr>,
     \<lparr>bname = ''Milk Shake'', basePrice = 14.90\<rparr>,
     \<lparr>bname = ''Por'' @ [CHR 0xE7] @ [CHR 0xE3] @ ''o de Onion Rings'', basePrice = 16.90\<rparr>,
     \<lparr>bname = ''Sandu'' @ [CHR 0xED] @ ''che Natural'', basePrice = 11.90\<rparr>,
     \<lparr>bname = ''A'' @ [CHR 0xE7] @ ''a'' @ [CHR 0xED] @ '' 500ml'', basePrice = 18.90\<rparr>]"

definition Cafeteria_products :: "BaseProduct list" where
  "Cafeteria_products =
    [\<lparr>bname = ''Caf'' @ [CHR 0xE9] @ '' Expresso'', basePrice = 7.50\<rparr>,
     \<lparr>bname = ''Cappuccino Tradicional'', basePrice = 11.90\<rparr>,
     \<lparr>bname = ''P'' @ [CHR 0xE3] @ ''o de Queijo'', basePrice = 5.50\<rparr>,
     \<lparr>bname = ''Croissant Recheado'', basePrice = 9.90\<rparr>,
     \<lparr>bname = ''Bolo Caseiro Fatia'', basePrice = 10.50\<rparr>,
     \<lparr>bname = ''Caf'' @ [CHR 0xE9] @ '' com Leite'', basePrice = 8.90\<rparr>,
     \<lparr>bname = ''Brownie'', basePrice = 12.90\<rparr>,
     \<lparr>bname = ''Torta de Lim'' @ [CHR 0xE3] @ ''o'', basePrice = 14.90\<rparr>,
     \<lparr>bname = ''Cookie Chocolate'', basePrice = 6.90\<rparr>,
     \<lparr>bname = ''Ch'' @ [CHR 0xE1] @ '' Gelado 500ml'', basePrice = 9.90\<rparr>]"

definition Padaria_products :: "BaseProduct list" where
  "Padaria_products =
    [\<lparr>bname = ''P'' @ [CHR 0xE3] @ ''o Franc'' @ [CHR 0xEA] @ ''s (kg)'', basePrice = 14.90\<rparr>,
     \<lparr>bname = ''P'' @ [CHR 0xE3] @ ''o de Forma Integral'', basePrice = 9.50\<rparr>,
     \<lparr>bname = ''Bolo de Chocolate'', basePrice = 28.90\<rparr>,
     \<lparr>bname = ''Sonho Recheado'', basePrice = 6.50\<rparr>,
     \<lparr>bname = ''Empada de Frango'', basePrice = 7.90\<rparr>,
     \<lparr>bname = ''P'' @ [CHR 0xE3] @ ''o de Queijo'', basePrice = 4.90\<rparr>,
     \<lparr>bname = ''Torta Salgada'', basePrice = 32.90\<rparr>,
     \<lparr>bname = ''Biscoito Caseiro (kg)'', basePrice = 24.90\<rparr>,
     \<lparr>bname = ''Croissant'', basePrice = 8.90\<rparr>,
     \<lparr>bname = ''Baguete'', basePrice = 6.90\<rparr>]"

definition productsByCategory :: "(string \<times> BaseProduct list) list" where
  "productsByCategory =
    [(Mercado, Mercado_products),
     (Farmacia, Farmacia_products),
     (Lanchonete, Lanchonete_products),
     (Cafeteria, Cafeteria_products),
     (Padaria, Padaria_products)]"

datatype js_error = TypeError

text \<open>
  \<open>productsByCategory\<close> is an object literal, so reading it at a key follows the
  prototype chain: a key that is not one of its own reads the member of that name that
  every object inherits from \<open>Object.prototype\<close>, if there is one, and
  \<open>undefined\<close> otherwise. These are the inherited names (ECMAScript, the properties
  of the Object prototype object and its additions for web browsers).
\<close>

definition Object_prototype_keys :: "string list" where
  "Object_prototype_keys =
    [''constructor'', ''__defineGetter__'', ''__defineSetter__'', ''hasOwnProperty'',
     ''__lookupGetter__'', ''__lookupSetter__'', ''isPrototypeOf'', ''propertyIsEnumerable'',
     ''toString'', ''valueOf'', ''__proto__'', ''toLocaleString'']"

text \<open>
  \<open>productsByCategory[place.type] || productsByCategory['Mercado']\<close> followed by
  \<open>[...products]\<close>. An own key gives its table. An inherited member is a function
  (for \<open>__proto__\<close> an object): it is truthy, so the default is not taken, and it is
  not iterable, so the spread throws a TypeError. Any other key reads as
  \<open>undefined\<close> and the table of Mercado is taken.
\<close>

definition products_for :: "string \<Rightarrow> js_error + BaseProduct list" where
  "products_for t =
     (case map_of productsByCategory t of
        Some ps \<Rightarrow> Inr ps
      | None \<Rightarrow> if t \<in> set Object_prototype_keys then Inl TypeError else Inr Mercado_products)"

text \<open>
  The price in the arithmetic of the source: every literal and every result of \<open>+\<close>,
  \<open>*\<close> and \<open>/\<close> is rounded to a double; \<open>Math.round\<close> and the literal 100 are
  exact.
\<close>

definition make_product :: "runtime \<Rightarrow> Place \<Rightarrow> nat \<Rightarrow> BaseProduct \<times> nat \<Rightarrow> Product" where
  "make_product rt place first = (\<lambda>(product, index).
     (let variation = double rt (double rt 0.85
                        + double rt (random rt (first + index) * double rt 0.4));
          p = double rt (double rt (basePrice product) * variation)
      in \<lparr>product_id = pid place @ ''-'' @ toString rt (of_nat index),
          product_name = bname product,
          price = double rt (js_round (double rt (p * 100)) / 100),
          store = name place,
          product_distance = toString rt (distance place) @ '' km'',
          product_category = ptype place,
          source = None,
          lastUpdated = None,
          confidence = None,
          isReal = Some False\<rparr>))"

text \<open>
  The draws in the order of the source: one for the number of products, those of the
  comparator during the shuffle, then one for each selected product. Where the spread
  throws, the function ends there and returns nothing.
\<close>

definition generateRealisticProducts :: "runtime \<Rightarrow> Place \<Rightarrow> js_error + Product list" where
  "generateRealisticProducts rt place =
     (case products_for (ptype place) of
        Inl e \<Rightarrow> Inl e
      | Inr products \<Rightarrow>
          (let numProducts = 3 + nat \<lfloor>double rt (random rt 0 * 3)\<rfloor>;
               (shuffled, used) = sort_random rt (\<lambda>n. random rt (Suc n)) products;
               selectedProducts = take numProducts shuffled
           in Inr (map (make_product rt place (Suc used))
                     (zip selectedProducts [0 ..< length selectedProducts]))))"

section \<open>The quiz (establishment-quiz.tsx)\<close>

datatype icon = ShoppingBag | Pill | Coffee | Store | UtensilsCrossed

record QuizOption =
  opt_text :: string
  val :: string
  opt_icon :: icon

record QuizQuestion =
  qid :: nat
  question :: string
  options :: "QuizOption list"

record QuizResult =
  rtype :: string
  rname :: string
  description :: string
  ricon :: icon
  imageUrl :: "string option"

definition quizQuestions :: "QuizQuestion list" where
  "quizQuestions =
    [\<lparr>qid = 1, question = ''O que voc'' @ [CHR 0xEA] @ '' est'' @ [CHR 0xE1] @ '' procurando?'',
       options =
        [\<lparr>opt_text = ''Alimentos e produtos do dia a dia'', val = ''food'', opt_icon = ShoppingBag\<rparr>,
         \<lparr>opt_text = ''Medicamentos e produtos de sa'' @ [CHR 0xFA] @ ''de'', val = ''health'', opt_icon = Pill\<rparr>,
         \<lparr>opt_text = ''Comida pronta ou lanches'', val = ''meal'', opt_icon = Coffee\<rparr>,
         \<lparr>opt_text = ''Produtos variados'', val = ''general'', opt_icon = Store\<rparr>]\<rparr>,
     \<lparr>qid = 2, question = ''Qual '' @ [CHR 0xE9] @ '' a sua prioridade?'',
       options =
        [\<lparr>opt_text = ''Variedade de produtos'', val = ''variety'', opt_icon = ShoppingBag\<rparr>,
         \<lparr>opt_text = ''Atendimento especializado'', val = ''specialized'', opt_icon = Pill\<rparr>,
         \<lparr>opt_text = ''Rapidez e conveni'' @ [CHR 0xEA] @ ''ncia'', val = ''quick'', opt_icon = Coffee\<rparr>,
         \<lparr>opt_text = ''Pre'' @ [CHR 0xE7] @ ''o baixo'', val = ''price'', opt_icon = Store\<rparr>]\<rparr>,
     \<lparr>qid = 3, question = ''Que tipo de ambiente voc'' @ [CHR 0xEA] @ '' prefere?'',
       options =
        [\<lparr>opt_text = ''Grande e completo'', val = ''large'', opt_icon = ShoppingBag\<rparr>,
         \<lparr>opt_text = ''Profissional e limpo'', val = ''professional'', opt_icon = Pill\<rparr>,
         \<lparr>opt_text = ''Aconchegante e casual'', val = ''cozy'', opt_icon = Coffee\<rparr>,
         \<lparr>opt_text = ''Simples e pr'' @ [CHR 0xE1] @ ''tico'', val = ''simple'', opt_icon = Store\<rparr>]\<rparr>]"

definition quizResults :: "string \<rightharpoonup> QuizResult" where
  "quizResults = map_of
    [(Mercado, \<lparr>rtype = Mercado, rname = ''Mercado/Supermercado'',
        description = ''Estabelecimentos com grande variedade de produtos aliment'' @ [CHR 0xED] @ ''cios, bebidas, produtos de limpeza e itens do dia a dia.'',
        ricon = ShoppingBag, imageUrl = None\<rparr>),
     (Farmacia, \<lparr>rtype = Farmacia, rname = ''Farm'' @ [CHR 0xE1] @ ''cia/Drogaria'',
        description = ''Estabelecimentos especializados em medicamentos, produtos de sa'' @ [CHR 0xFA] @ ''de, higiene pessoal e bem-estar.'',
        ricon = Pill, imageUrl = None\<rparr>),
     (Lanchonete, \<lparr>rtype = Lanchonete, rname = ''Lanchonete/Fast Food'',
        description = ''Estabelecimentos que servem refei'' @ [CHR 0xE7] @ [CHR 0xF5] @ ''es r'' @ [CHR 0xE1] @ ''pidas, lanches, salgados e bebidas para consumo imediato.'',
        ricon = Coffee, imageUrl = None\<rparr>),
     (Cafeteria, \<lparr>rtype = Cafeteria, rname = ''Cafeteria/Caf'' @ [CHR 0xE9],
        description = ''Estabelecimentos especializados em caf'' @ [CHR 0xE9] @ '', bebidas quentes, doces e ambiente aconchegante.'',
        ricon = Coffee, imageUrl = None\<rparr>),
     (Padaria, \<lparr>rtype = Padaria, rname = ''Padaria/Confeitaria'',
        description = ''Estabelecimentos que produzem e vendem p'' @ [CHR 0xE3] @ ''es, bolos, doces e produtos de confeitaria.'',
        ricon = Store, imageUrl = None\<rparr>),
     (Restaurante, \<lparr>rtype = Restaurante, rname = ''Restaurante'',
        description = ''Estabelecimentos que servem refei'' @ [CHR 0xE7] @ [CHR 0xF5] @ ''es completas em ambiente mais formal.'',
        ricon = UtensilsCrossed, imageUrl = None\<rparr>)]"

text \<open>\<open>String.prototype.includes\<close>: the second string occurs in the first as a block.\<close>

fun string_includes :: "string \<Rightarrow> string \<Rightarrow> bool" where
  "string_includes [] t = (t = [])"
| "string_includes (c # s) t = (take (length t) (c # s) = t \<or> string_includes s t)"

text \<open>The rules in the order of the source; the first that holds decides.\<close>

definition determineResult :: "string list \<Rightarrow> QuizResult option" where
  "determineResult userAnswers =
     (let answerString = join ''-'' userAnswers in
      if string_includes answerString ''food'' \<and>
         (string_includes answerString ''variety'' \<or> string_includes answerString ''price'')
      then quizResults Mercado
      else if string_includes answerString ''health'' then quizResults Farmacia
      else if string_includes answerString ''meal'' \<and> string_includes answerString ''cozy''
      then quizResults Cafeteria
      else if string_includes answerString ''meal'' \<and> string_includes answerString ''quick''
      then quizResults Lanchonete
      else if string_includes answerString ''food'' \<and> string_includes answerString ''quick''
      then quizResults Padaria
      else if string_includes answerString ''meal'' then quizResults Restaurante
      else quizResults Mercado)"

text \<open>
  The state of the component and \<open>handleAnswer\<close>: an answer is appended, and the
  answer to the last question determines the result. The image request that follows is
  not part of the model.
\<close>

record QuizState =
  currentQuestion :: nat
  answers :: "string list"
  isComplete :: bool
  result :: "QuizResult option"

definition initialQuiz :: QuizState where
  "initialQuiz = \<lparr>currentQuestion = 0, answers = [], isComplete = False, result = None\<rparr>"

definition handleAnswer :: "QuizState \<Rightarrow> string \<Rightarrow> QuizState" where
  "handleAnswer st v =
     (let newAnswers = answers st @ [v] in
      if int (currentQuestion st) < int (length quizQuestions) - 1
      then st\<lparr>answers := newAnswers, currentQuestion := currentQuestion st + 1\<rparr>
      else st\<lparr>answers := newAnswers, result := determineResult newAnswers, isComplete := True\<rparr>)"

text \<open>
  The answer sequences that the component can produce: the buttons shown are the
  options of the current question, so the sequence holds one option value of each
  question, in the order of the questions.
\<close>

definition quiz_sequences :: "string list list" where
  "quiz_sequences = product_lists (map (\<lambda>q. map val (options q)) quizQuestions)"

section \<open>Authentication (auth.ts)\<close>

record StoredUser =
  email :: string
  password :: string
  user_name :: string

record User =
  u_email :: string
  u_name :: string

record AuthState =
  isAuthenticated :: bool
  user :: "User option"

text \<open>
  The browser storage: under \<open>USERS_KEY\<close> there is nothing, text that
  \<open>JSON.parse\<close> rejects, JSON that is not an array of users, or the user list; under
  \<open>STORAGE_KEY\<close> the session. \<open>setItem\<close> throws when the storage cannot be
  written.
\<close>

datatype users_item = Absent | Unparsable | NotAnArray | Users "StoredUser list"

record Storage =
  users_item :: users_item
  auth_item :: "AuthState option"
  writable :: bool

record AuthResult =
  success :: bool
  error :: "string option"
  logged :: "User option"

definition ERR_FIELDS :: string where
  "ERR_FIELDS = ''Preencha todos os campos''"

definition ERR_EMAIL :: string where
  "ERR_EMAIL = ''Email inv'' @ [CHR 0xE1] @ ''lido''"

definition ERR_PASSWORD :: string where
  "ERR_PASSWORD = ''Senha deve ter no m'' @ [CHR 0xED] @ ''nimo 6 caracteres''"

definition ERR_DUPLICATE :: string where
  "ERR_DUPLICATE = ''Email j'' @ [CHR 0xE1] @ '' cadastrado''"

definition ERR_REGISTER :: string where
  "ERR_REGISTER = ''Erro ao registrar. Tente novamente.''"

definition ERR_CREDENTIALS :: string where
  "ERR_CREDENTIALS = ''Email ou senha incorretos''"

definition ERR_LOGIN :: string where
  "ERR_LOGIN = ''Erro ao fazer login. Tente novamente.''"

definition failure :: "string \<Rightarrow> AuthResult" where
  "failure msg = \<lparr>success = False, error = Some msg, logged = None\<rparr>"

text \<open>
  \<open>getStoredUsers\<close>: the empty list when nothing is stored or the text does not
  parse; \<open>None\<close> stands for a parsed value that is not an array, on which the
  callers' \<open>some\<close> and \<open>find\<close> throw.
\<close>

definition getStoredUsers :: "Storage \<Rightarrow> StoredUser list option" where
  "getStoredUsers st =
     (case users_item st of
        Absent \<Rightarrow> Some []
      | Unparsable \<Rightarrow> Some []
      | NotAnArray \<Rightarrow> None
      | Users us \<Rightarrow> Some us)"

definition register :: "Storage \<Rightarrow> string \<Rightarrow> string \<Rightarrow> string \<Rightarrow> AuthResult \<times> Storage" where
  "register st em pw nm =
     (if em = [] \<or> pw = [] \<or> nm = [] then (failure ERR_FIELDS, st)
      else if \<not> string_includes em ''@'' then (failure ERR_EMAIL, st)
      else if length pw < 6 then (failure ERR_PASSWORD, st)
      else case getStoredUsers st of
        None \<Rightarrow> (failure ERR_REGISTER, st)
      | Some users \<Rightarrow>
          if list_ex (\<lambda>u. email u = em) users then (failure ERR_DUPLICATE, st)
          else if \<not> writable st then (failure ERR_REGISTER, st)
          else (\<lparr>success = True, error = None, logged = None\<rparr>,
                st\<lparr>users_item := Users (users @ [\<lparr>email = em, password = pw, user_name = nm\<rparr>])\<rparr>))"

definition login :: "Storage \<Rightarrow> string \<Rightarrow> string \<Rightarrow> AuthResult \<times> Storage" where
  "login st em pw =
     (if em = [] \<or> pw = [] then (failure ERR_FIELDS, st)
      else case getStoredUsers st of
        None \<Rightarrow> (failure ERR_LOGIN, st)
      | Some users \<Rightarrow>
          (case find (\<lambda>u. email u = em \<and> password u = pw) users of
             None \<Rightarrow> (failure ERR_CREDENTIALS, st)
           | Some u \<Rightarrow>
               if \<not> writable st then (failure ERR_LOGIN, st)
               else (\<lparr>success = True, error = None,
                      logged = Some \<lparr>u_email = email u, u_name = user_name u\<rparr>\<rparr>,
                     st\<lparr>auth_item := Some \<lparr>isAuthenticated = True,
                                            user = Some \<lparr>u_email = email u, u_name = user_name u\<rparr>\<rparr>\<rparr>)))"

definition logout :: "Storage \<Rightarrow> Storage" where
  "logout st = st\<lparr>auth_item := None\<rparr>"

section \<open>Postal-code lookup (geolocation.ts)\<close>

record AddressInfo =
  cep :: "string option"
  city :: string
  state :: string
  street :: "string option"
  neighborhood :: "string option"
  addr_coordinates :: Coordinates

text \<open>The fields read from the answer of ViaCEP.\<close>

record ViaCepData =
  v_cep :: string
  logradouro :: string
  localidade :: string
  uf :: string
  bairro :: string

text \<open>
  How a request ends: \<open>fetch\<close> rejects, the response is not \<open>ok\<close>, the body does not
  parse, ViaCEP reports \<open>erro\<close>, or the data arrive. The two services are functions
  from what is asked (the URL for ViaCEP, the address text for Nominatim) to the outcome,
  and every function returns, with its result, the requests it made, in order.
\<close>

datatype viacep = ViaRejected | ViaNotOk | ViaBadJson | ViaErro | ViaData ViaCepData

datatype nominatim = NomRejected | NomNotOk | NomBadJson | NomResults "(real \<times> real) list"

datatype request = ViaCEP string | Nominatim string

definition getCoordinatesFromAddress ::
    "(string \<Rightarrow> nominatim) \<Rightarrow> string \<Rightarrow> Coordinates option \<times> request list" where
  "getCoordinatesFromAddress nom addr =
     (case nom addr of
        NomResults (r # rest) \<Rightarrow> (Some \<lparr>lat = fst r, lng = snd r\<rparr>, [Nominatim addr])
      | _ \<Rightarrow> (None, [Nominatim addr]))"

definition getCoordinatesFromCity ::
    "(string \<Rightarrow> nominatim) \<Rightarrow> string \<Rightarrow> string option \<Rightarrow> Coordinates option \<times> request list" where
  "getCoordinatesFromCity nom cityName st =
     (let searchQuery = (if truthy st then cityName @ '', '' @ the st @ '', Brasil''
                         else cityName @ '', Brasil'')
      in getCoordinatesFromAddress nom searchQuery)"

text \<open>\<open>\D\<close> matches every character that is not one of the ten digits.\<close>

definition is_digit :: "char \<Rightarrow> bool" where
  "is_digit c = (c \<in> set ''0123456789'')"

definition viacep_url :: "string \<Rightarrow> string" where
  "viacep_url cleanCEP = ''https://viacep.com.br/ws/'' @ cleanCEP @ ''/json/''"

definition getAddressFromCEP ::
    "(string \<Rightarrow> viacep) \<Rightarrow> (string \<Rightarrow> nominatim) \<Rightarrow> string \<Rightarrow> AddressInfo option \<times> request list" where
  "getAddressFromCEP via nom input =
     (let cleanCEP = filter is_digit input in
      if length cleanCEP \<noteq> 8 then (None, [])
      else
        (case via (viacep_url cleanCEP) of
           ViaData d \<Rightarrow>
             (case getCoordinatesFromAddress nom
                     (logradouro d @ '', '' @ localidade d @ '', '' @ uf d @ '', Brasil'') of
                (coords, reqs) \<Rightarrow>
                  (Some \<lparr>cep = Some (v_cep d),
                         city = localidade d,
                         state = uf d,
                         street = Some (logradouro d),
                         neighborhood = Some (bairro d),
                         addr_coordinates =
                           (case coords of Some c \<Rightarrow> c
                            | None \<Rightarrow> \<lparr>lat = - 23.5505, lng = - 46.6333\<rparr>)\<rparr>,
                   ViaCEP (viacep_url cleanCEP) # reqs))
         | _ \<Rightarrow> (None, [ViaCEP (viacep_url cleanCEP)])))"

section \<open>Attaching products (places.ts, ai-price-scraper.ts)\<close>

record SocialMedia =
  instagram :: "string option"
  facebook :: "string option"
  website :: "string option"

record RealPriceData =
  productName :: string
  rp_price :: real
  rp_source :: string
  rp_lastUpdated :: string
  rp_confidence :: confidence

record StoreWithRealPrices =
  storeName :: string
  storeType :: string
  rp_address :: string
  rp_socialMedia :: "SocialMedia option"
  prices :: "RealPriceData list"
  lastScraped :: string

record StoreWithProducts = Place +
  products :: "Product list"
  socialMedia :: "SocialMedia option"

text \<open>
  \<open>fetchRealPricesWithAI\<close> asks a language model; what it returns for a call is a
  parameter: the call throws, returns \<open>null\<close>, or returns the store with its prices.
  The parameter is given the position of the place in the list besides the three
  arguments of the call, so that two places of the same name may get different answers.
\<close>

datatype ai_outcome = AiThrew | AiNull | AiData StoreWithRealPrices

definition real_product :: "runtime \<Rightarrow> Place \<Rightarrow> RealPriceData \<times> nat \<Rightarrow> Product" where
  "real_product rt place = (\<lambda>(priceData, index).
     \<lparr>product_id = pid place @ ''-'' @ toString rt (of_nat index),
      product_name = productName priceData,
      price = rp_price priceData,
      store = name place,
      product_distance = toString rt (distance place) @ '' km'',
      product_category = ptype place,
      source = Some (rp_source priceData),
      lastUpdated = Some (rp_lastUpdated priceData),
      confidence = Some (rp_confidence priceData),
      isReal = Some True\<rparr>)"

text \<open>
  \<open>{...place, products: generateRealisticProducts(place)}\<close>: the spread copies the
  fields of the place. The draws of the call begin at the position \<open>first\<close> of the
  stream; an exception of the call leaves the expression.
\<close>

definition with_mock_products :: "runtime \<Rightarrow> nat \<Rightarrow> Place \<Rightarrow> js_error + StoreWithProducts" where
  "with_mock_products rt first place =
     (case generateRealisticProducts (rt\<lparr>random := \<lambda>n. random rt (first + n)\<rparr>) place of
        Inl e \<Rightarrow> Inl e
      | Inr ps \<Rightarrow> Inr (Place.extend place (StoreWithProducts.fields ps None)))"

text \<open>
  The callback that \<open>addRealProductsToPlaces\<close> maps over a batch, with its
  \<open>try\<close> and \<open>catch\<close>. The callbacks of a batch run interleaved, each call of
  \<open>generateRealisticProducts\<close> without interruption: the draws of the call for the
  place at position \<open>k\<close> begin at \<open>start k\<close>, whatever the schedule makes of it.
  When that call throws inside the \<open>try\<close>, after its one draw, the \<open>catch\<close>
  calls the function again at once; an exception of the call in the \<open>catch\<close>
  rejects the promise of the callback.
\<close>

definition try_mock_products :: "runtime \<Rightarrow> nat \<Rightarrow> Place \<Rightarrow> js_error + StoreWithProducts" where
  "try_mock_products rt first place =
     (case with_mock_products rt first place of
        Inr s \<Rightarrow> Inr s
      | Inl e \<Rightarrow> with_mock_products rt (Suc first) place)"

definition attach ::
    "runtime \<Rightarrow> (nat \<Rightarrow> string \<Rightarrow> string \<Rightarrow> string \<Rightarrow> ai_outcome) \<Rightarrow> (nat \<Rightarrow> nat) \<Rightarrow> string
     \<Rightarrow> nat \<times> Place \<Rightarrow> js_error + StoreWithProducts" where
  "attach rt ai start cityName = (\<lambda>(k, place).
     (case ai k (name place) (ptype place) cityName of
        AiData realPrices \<Rightarrow>
          if length (prices realPrices) > 0
          then Inr (Place.extend place
                 (StoreWithProducts.fields
                    (map (real_product rt place)
                       (zip (prices realPrices) [0 ..< length (prices realPrices)]))
                    (rp_socialMedia realPrices)))
          else try_mock_products rt (start k) place
      | AiNull \<Rightarrow> try_mock_products rt (start k) place
      | AiThrew \<Rightarrow> with_mock_products rt (start k) place))"

text \<open>
  \<open>Promise.all\<close>: the results in the order of the promises, or the rejection of a
  promise that rejects.
\<close>

fun promise_all :: "(js_error + 'a) list \<Rightarrow> js_error + 'a list" where
  "promise_all [] = Inr []"
| "promise_all (Inl e # rs) = Inl e"
| "promise_all (Inr x # rs) =
     (case promise_all rs of Inl e \<Rightarrow> Inl e | Inr xs \<Rightarrow> Inr (x # xs))"

text \<open>\<open>Array.prototype.slice\<close> for bounds \<open>0 \<le> i \<le> j\<close>.\<close>

definition slice :: "nat \<Rightarrow> nat \<Rightarrow> 'a list \<Rightarrow> 'a list" where
  "slice i j xs = take (j - i) (drop i xs)"

definition batchSize :: nat where
  "batchSize = 5"

text \<open>
  The \<open>for\<close> loop over the batches: each round awaits the callbacks of one batch and
  appends their results in the order of the batch; a rejection among them ends the
  function with that exception.
\<close>

function batch_loop ::
    "(nat \<times> Place \<Rightarrow> js_error + StoreWithProducts) \<Rightarrow> Place list \<Rightarrow> nat
     \<Rightarrow> StoreWithProducts list \<Rightarrow> js_error + StoreWithProducts list" where
  "batch_loop f places i storesWithProducts =
     (if i < length places
      then (let batch = slice i (i + batchSize) places in
            case promise_all (map f (zip [i ..< i + length batch] batch)) of
              Inl e \<Rightarrow> Inl e
            | Inr batchResults \<Rightarrow>
                batch_loop f places (i + batchSize) (storesWithProducts @ batchResults))
      else Inr storesWithProducts)"
  by pat_completeness auto
termination
  by (relation "measure (\<lambda>(f, places, i, acc). length places - i)") (auto simp: batchSize_def)

declare batch_loop.simps [simp del]

definition addRealProductsToPlaces ::
    "runtime \<Rightarrow> (nat \<Rightarrow> string \<Rightarrow> string \<Rightarrow> string \<Rightarrow> ai_outcome) \<Rightarrow> (nat \<Rightarrow> nat)
     \<Rightarrow> Place list \<Rightarrow> string \<Rightarrow> js_error + StoreWithProducts list" where
  "addRealProductsToPlaces rt ai start places cityName =
     batch_loop (attach rt ai start cityName) places 0 []"

section \<open>Category mapping\<close>

lemma category_loop_find:
  "category_loop tbl shop amenity =
     (case find (tag_match shop amenity) tbl of None \<Rightarrow> Outros | Some entry \<Rightarrow> fst entry)"
  by (induction tbl shop amenity rule: category_loop.induct) (simp_all add: tag_match_def)

lemma category_loop_range:
  "category_loop tbl shop amenity = Outros \<or> category_loop tbl shop amenity \<in> fst ` set tbl"
  by (induction tbl shop amenity rule: category_loop.induct) auto

text \<open>
  C5. The category of a place is a function of its \<open>shop\<close> and \<open>amenity\<close> tags alone.
  It is the name of the first entry of the table, in the order Mercado, Farmacia,
  Lanchonete, Cafeteria, Padaria, Restaurante, whose tag list includes one of the two
  tags; when no tag list of the table includes either tag, it is Outros.
\<close>

theorem getCategoryFromTags_first_match:
  "map fst CATEGORY_TAGS = [Mercado, Farmacia, Lanchonete, Cafeteria, Padaria, Restaurante]
   \<and> getCategoryFromTags tags =
       (case find (tag_match (tags ''shop'') (tags ''amenity'')) CATEGORY_TAGS of
          None \<Rightarrow> Outros | Some entry \<Rightarrow> fst entry)
   \<and> ((\<forall>entry \<in> set CATEGORY_TAGS. \<not> tag_match (tags ''shop'') (tags ''amenity'') entry)
        \<longrightarrow> getCategoryFromTags tags = Outros)
   \<and> (tags ''shop'' = tags' ''shop'' \<and> tags ''amenity'' = tags' ''amenity''
        \<longrightarrow> getCategoryFromTags tags = getCategoryFromTags tags')"
proof -
  have order: "map fst CATEGORY_TAGS = [Mercado, Farmacia, Lanchonete, Cafeteria, Padaria, Restaurante]"
    by (simp add: CATEGORY_TAGS_def)
  have first: "getCategoryFromTags tags =
       (case find (tag_match (tags ''shop'') (tags ''amenity'')) CATEGORY_TAGS of
          None \<Rightarrow> Outros | Some entry \<Rightarrow> fst entry)"
    unfolding getCategoryFromTags_def by (rule category_loop_find)
  have fallback: "getCategoryFromTags tags = Outros"
    if "\<forall>entry \<in> set CATEGORY_TAGS. \<not> tag_match (tags ''shop'') (tags ''amenity'') entry"
  proof -
    from that have "find (tag_match (tags ''shop'') (tags ''amenity'')) CATEGORY_TAGS = None"
      by (simp add: find_None_iff)
    with first show ?thesis by simp
  qed
  have pure: "getCategoryFromTags tags = getCategoryFromTags tags'"
    if "tags ''shop'' = tags' ''shop'' \<and> tags ''amenity'' = tags' ''amenity''"
    using that by (simp add: getCategoryFromTags_def)
  from order first fallback pure show ?thesis by blast
qed

text \<open>Witness of C5: a bakery that also carries the amenity tag of a pharmacy.\<close>

theorem getCategoryFromTags_first_match_witness:
  "getCategoryFromTags [''shop'' \<mapsto> ''bakery'', ''amenity'' \<mapsto> ''pharmacy''] = Farmacia
   \<and> getCategoryFromTags [''shop'' \<mapsto> ''florist''] = Outros
   \<and> getCategoryFromTags [''shop'' \<mapsto> ''bakery'', ''name'' \<mapsto> ''A'']
       = getCategoryFromTags [''shop'' \<mapsto> ''bakery'', ''name'' \<mapsto> ''B'']"
proof -
  let ?t = "[''shop'' \<mapsto> ''florist''] :: osm_tags"
  have none: "\<forall>entry \<in> set CATEGORY_TAGS. \<not> tag_match (?t ''shop'') (?t ''amenity'') entry"
    by (simp add: CATEGORY_TAGS_def tag_match_def array_includes_def)
  have first: "getCategoryFromTags [''shop'' \<mapsto> ''bakery'', ''amenity'' \<mapsto> ''pharmacy''] = Farmacia"
    using getCategoryFromTags_first_match
      [of "[''shop'' \<mapsto> ''bakery'', ''amenity'' \<mapsto> ''pharmacy'']" "Map.empty"]
    by (simp add: CATEGORY_TAGS_def tag_match_def array_includes_def)
  have other: "getCategoryFromTags ?t = Outros"
    using getCategoryFromTags_first_match [of ?t "Map.empty"] none by blast
  let ?a = "[''shop'' \<mapsto> ''bakery'', ''name'' \<mapsto> ''A''] :: osm_tags"
  let ?b = "[''shop'' \<mapsto> ''bakery'', ''name'' \<mapsto> ''B''] :: osm_tags"
  have agree: "?a ''shop'' = ?b ''shop'' \<and> ?a ''amenity'' = ?b ''amenity''"
    by simp
  have same: "getCategoryFromTags ?a = getCategoryFromTags ?b"
    using getCategoryFromTags_first_match [of ?a ?b] agree by blast
  from first other same show ?thesis by simp
qed

lemma category_loop_not_Restaurante:
  "category_loop CATEGORY_TAGS shop amenity \<noteq> Restaurante"
  by (cases shop; cases amenity)
     (simp_all add: CATEGORY_TAGS_def array_includes_def category_names)

lemma element_place_category:
  "category (element_place rt coords element) = getCategoryFromTags (the (el_tags element))"
  by (simp add: element_place_def Let_def)

text \<open>
  C9. No tags make \<open>getCategoryFromTags\<close> return Restaurante: the only tag of the
  Restaurante entry is \<open>restaurant\<close>, which the Lanchonete entry, checked before it, has
  too. So no place that the search builds from an Overpass answer has the category
  Restaurante.
\<close>

theorem getCategoryFromTags_never_Restaurante:
  "getCategoryFromTags tags \<noteq> Restaurante
   \<and> map_of CATEGORY_TAGS Restaurante = Some [''restaurant'']
   \<and> map_of CATEGORY_TAGS Lanchonete = Some [''fast_food'', ''restaurant'']
   \<and> Restaurante \<notin> set (map category (searchNearbyPlaces rt (Elements elements) coords))"
proof -
  have never: "getCategoryFromTags t \<noteq> Restaurante" for t
    unfolding getCategoryFromTags_def by (rule category_loop_not_Restaurante)
  have table: "map_of CATEGORY_TAGS Restaurante = Some [''restaurant'']
     \<and> map_of CATEGORY_TAGS Lanchonete = Some [''fast_food'', ''restaurant'']"
    by (simp add: CATEGORY_TAGS_def category_names)
  have "category p \<noteq> Restaurante"
    if "p \<in> set (searchNearbyPlaces rt (Elements elements) coords)" for p
  proof -
    from that have "p \<in> set (sort_key distance (map (element_place rt coords) (filter has_name elements)))"
      unfolding searchNearbyPlaces_def by (auto dest: in_set_takeD)
    then obtain e where "p = element_place rt coords e" by auto
    then show ?thesis by (simp add: element_place_category never)
  qed
  then have "Restaurante \<notin> set (map category (searchNearbyPlaces rt (Elements elements) coords))"
    by force
  with never table show ?thesis by blast
qed

section \<open>Distance\<close>

lemma sin_half_swap: "sin (toRad (x - y) / 2) = - sin (toRad (y - x) / 2)"
proof -
  have "toRad (x - y) / 2 = - (toRad (y - x) / 2)"
    by (simp add: toRad_def field_simps)
  then show ?thesis by (simp only: sin_minus)
qed

lemma hav_swap:
  "sin (toRad (x - y) / 2) * sin (toRad (x - y) / 2)
   = sin (toRad (y - x) / 2) * sin (toRad (y - x) / 2)"
  by (simp add: sin_half_swap [of x y])

lemma hav_sum:
  fixes s t :: real
  assumes "p = p'" and "s * s = t * t"
  shows "p + c1 * c2 * s * s = p' + c2 * c1 * t * t"
proof -
  have "c1 * c2 * s * s = c2 * c1 * (s * s)" by simp
  also have "\<dots> = c2 * c1 * (t * t)" by (simp only: assms(2))
  also have "\<dots> = c2 * c1 * t * t" by simp
  finally show ?thesis by (simp only: assms(1))
qed

text \<open>
  Over the exact reals the formula is symmetric in its two coordinates and gives 0 for
  a coordinate and itself. This is a property of the formula, not of the source, which
  evaluates the formula in doubles.
\<close>

lemma calculateDistance_formula_symmetric:
  "calculateDistance A B = calculateDistance B A \<and> calculateDistance A A = 0"
proof
  have a: "sin (toRad (lat B - lat A) / 2) * sin (toRad (lat B - lat A) / 2) +
              cos (toRad (lat A)) * cos (toRad (lat B)) *
              sin (toRad (lng B - lng A) / 2) * sin (toRad (lng B - lng A) / 2)
         = sin (toRad (lat A - lat B) / 2) * sin (toRad (lat A - lat B) / 2) +
              cos (toRad (lat B)) * cos (toRad (lat A)) *
              sin (toRad (lng A - lng B) / 2) * sin (toRad (lng A - lng B) / 2)"
    by (rule hav_sum [OF hav_swap hav_swap])
  show "calculateDistance A B = calculateDistance B A"
    unfolding calculateDistance_def Let_def by (simp only: a)
  show "calculateDistance A A = 0"
    by (simp add: calculateDistance_def toRad_def atan2_def js_round_def)
qed

lemma js_round_nonneg: "0 \<le> x \<Longrightarrow> 0 \<le> js_round x"
  by (simp add: js_round_def)

lemma hav_identity:
  fixes x y :: real
  shows "sin ((y - x) / 2) * sin ((y - x) / 2) + cos x * cos y = (1 + cos (x + y)) / 2"
proof -
  have "sin ((y - x) / 2) * sin ((y - x) / 2) = (1 - cos (y - x)) / 2"
    by (simp add: sin_times_sin)
  moreover have "cos x * cos y = (cos (x - y) + cos (x + y)) / 2"
    by (simp add: cos_times_cos)
  moreover have "cos (y - x) = cos (x - y)"
    by (metis cos_minus minus_diff_eq)
  ultimately show ?thesis by (simp add: field_simps)
qed

lemma convex_unit:
  fixes p q h :: real
  assumes "0 \<le> p" "p \<le> 1" "0 \<le> p + q" "p + q \<le> 1" "0 \<le> h" "h \<le> 1"
  shows "0 \<le> p + q * h \<and> p + q * h \<le> 1"
proof -
  have eq: "p + q * h = (1 - h) * p + h * (p + q)" by (simp add: algebra_simps)
  have "0 \<le> (1 - h) * p" "0 \<le> h * (p + q)" using assms by simp_all
  then have lo: "0 \<le> p + q * h" unfolding eq by simp
  have "(1 - h) * p \<le> (1 - h) * 1" using assms by (intro mult_left_mono) simp_all
  moreover have "h * (p + q) \<le> h * 1" using assms by (intro mult_left_mono) simp_all
  ultimately have "(1 - h) * p + h * (p + q) \<le> 1" by simp
  then show ?thesis using lo unfolding eq by simp
qed

lemma sin_sq_unit: "0 \<le> sin (t::real) * sin t \<and> sin t * sin t \<le> 1"
proof -
  have "sin t * sin t = (sin t)\<^sup>2" by (simp add: power2_eq_square)
  moreover have "(sin t)\<^sup>2 \<le> 1" by (simp add: abs_square_le_1)
  ultimately show ?thesis by simp
qed

lemma haversine_range:
  fixes x y l :: real
  shows "0 \<le> sin ((y - x) / 2) * sin ((y - x) / 2) + cos x * cos y * sin l * sin l
     \<and> sin ((y - x) / 2) * sin ((y - x) / 2) + cos x * cos y * sin l * sin l \<le> 1"
proof -
  define p where "p = sin ((y - x) / 2) * sin ((y - x) / 2)"
  define q where "q = cos x * cos y"
  define h where "h = sin l * sin l"
  define c where "c = cos (x + y)"
  have cb: "- 1 \<le> c" "c \<le> 1" by (simp_all add: c_def)
  have sum: "p + q = (1 + c) / 2"
    unfolding p_def q_def c_def by (rule hav_identity)
  have lo: "0 \<le> p + q" unfolding sum using cb by simp
  have hi: "p + q \<le> 1" unfolding sum using cb by simp
  from sin_sq_unit [of "(y - x) / 2"] have pr: "0 \<le> p" "p \<le> 1"
    by (simp_all add: p_def)
  from sin_sq_unit [of l] have hr: "0 \<le> h" "h \<le> 1"
    by (simp_all add: h_def)
  from convex_unit [OF pr lo hi hr] show ?thesis
    by (simp add: p_def q_def h_def mult.assoc)
qed

lemma atan2_nonneg: "0 \<le> y \<Longrightarrow> 0 \<le> x \<Longrightarrow> 0 \<le> atan2 y x"
  by (auto simp: atan2_def)

text \<open>
  Over the exact reals the argument of the two square roots lies between 0 and 1 for
  all coordinates, so neither root is taken of a negative number, and no distance is
  negative. In doubles the upper bound can fail by rounding, and only by rounding.
\<close>

lemma calculateDistance_nonneg: "0 \<le> calculateDistance A B"
proof -
  define a where "a = sin (toRad (lat B - lat A) / 2) * sin (toRad (lat B - lat A) / 2) +
              cos (toRad (lat A)) * cos (toRad (lat B)) *
              sin (toRad (lng B - lng A) / 2) * sin (toRad (lng B - lng A) / 2)"
  have "toRad (lat B - lat A) = toRad (lat B) - toRad (lat A)"
    by (simp only: toRad_def left_diff_distrib)
  with haversine_range [of "toRad (lat B)" "toRad (lat A)" "toRad (lng B - lng A) / 2"]
  have range: "0 \<le> a \<and> a \<le> 1"
    by (simp only: a_def)
  have d: "calculateDistance A B = js_round (6371 * (2 * atan2 (sqrt a) (sqrt (1 - a))) * 10) / 10"
    by (simp add: calculateDistance_def a_def Let_def)
  have "0 \<le> atan2 (sqrt a) (sqrt (1 - a))"
    using range by (intro atan2_nonneg) simp_all
  then have "0 \<le> 6371 * (2 * atan2 (sqrt a) (sqrt (1 - a))) * 10" by simp
  then have "0 \<le> js_round (6371 * (2 * atan2 (sqrt a) (sqrt (1 - a))) * 10)"
    by (rule js_round_nonneg)
  then show ?thesis unfolding d by simp
qed

text \<open>
  C8. \<open>calculateDistance\<close> should be symmetric and give 0 on the diagonal. The
  diagonal holds in doubles too: both differences are 0, so \<open>a\<close> is 0 and the result
  is 0. The symmetry fails in doubles: for the coordinates \<open>(2.5, -180)\<close> and
  \<open>(-2.5, 0)\<close> the sum \<open>a\<close> is 1.0000000000000002 in both orders,
  \<open>Math.sqrt(1 - a)\<close> is NaN, and so are \<open>Math.atan2\<close>, the product, the rounding
  and the result of both calls. NaN is not equal to NaN, so the two results are not
  equal. The bound of \<open>haversine_range\<close> shows that the excess over 1 is an effect of
  the rounding alone; the source does not clamp \<open>a\<close> before taking the roots.
\<close>

section \<open>Place search\<close>

lemma upt_8: "[0 ..< 8] = [0, 1, 2, 3, 4, 5, 6, 7 :: nat]"
  by (simp add: upt_conv_Cons)

lemma length_getMockPlaces: "length (getMockPlaces rt coords) = 8"
  by (simp add: getMockPlaces_def mockData_def)

lemma distance_getMockPlaces:
  "map distance (getMockPlaces rt coords) = [0.5, 0.8, 1.2, 1.5, 0.3, 0.6, 1.0, 0.9]"
  by (simp add: getMockPlaces_def mockData_def mock_place_def upt_8)

lemma mock_distances_unsorted: "\<not> sorted [0.5, 0.8, 1.2, 1.5, 0.3, 0.6, 1.0, 0.9 :: real]"
proof
  assume "sorted [0.5, 0.8, 1.2, 1.5, 0.3, 0.6, 1.0, 0.9 :: real]"
  then have "(1.5::real) \<le> 0.3"
    by (simp only: sorted_simps list.set insert_iff) blast
  then show False by simp
qed

text \<open>
  When Overpass answers, the list returned has at most 20 places and their distances
  do not decrease. On every path the list has at most 20 places.
\<close>

lemma searchNearbyPlaces_answer_sorted:
  "length (searchNearbyPlaces rt (Elements elements) coords) \<le> 20
   \<and> sorted (map distance (searchNearbyPlaces rt (Elements elements) coords))"
proof -
  have "sorted (map distance (sort_key distance xs))" for xs :: "Place list"
    by (rule sorted_sort_key)
  then have "sorted (take 20 (map distance (sort_key distance xs)))" for xs :: "Place list"
    by (rule sorted_wrt_take)
  then show ?thesis by (simp add: searchNearbyPlaces_def take_map)
qed

lemma searchNearbyPlaces_at_most_20:
  "length (searchNearbyPlaces rt response coords) \<le> 20"
  by (cases response) (simp_all add: searchNearbyPlaces_def length_getMockPlaces)

text \<open>
  C1. Every list that \<open>searchNearbyPlaces\<close> returns should have at most 20 places
  in the order of non-decreasing distance, on the fallback path too. Evaluated where
  \<open>fetch\<close> rejects: the eight mock places come back in the order in which they are
  written, with the distances 0.5, 0.8, 1.2, 1.5, 0.3, 0.6, 1.0, 0.9, which is not
  sorted.
\<close>

theorem searchNearbyPlaces_fallback_unsorted:
  "map distance (searchNearbyPlaces rt FetchRejected coords)
     = [0.5, 0.8, 1.2, 1.5, 0.3, 0.6, 1.0, 0.9]
   \<and> \<not> sorted (map distance (searchNearbyPlaces rt FetchRejected coords))"
proof -
  have "map distance (searchNearbyPlaces rt FetchRejected coords)
     = [0.5, 0.8, 1.2, 1.5, 0.3, 0.6, 1.0, 0.9]"
    by (simp add: searchNearbyPlaces_def distance_getMockPlaces)
  then show ?thesis by (simp only: mock_distances_unsorted simp_thms)
qed

section \<open>Quiz\<close>

lemma determineResult_after_three_answers:
  "result (foldl handleAnswer initialQuiz [a, b, c]) = determineResult [a, b, c]
   \<and> isComplete (foldl handleAnswer initialQuiz [a, b, c])"
  by (simp add: handleAnswer_def initialQuiz_def quizQuestions_def Let_def)

lemma meal_cozy_sequences:
  "filter (\<lambda>seq. ''meal'' \<in> set seq \<and> ''cozy'' \<in> set seq) quiz_sequences
   = [[''meal'', ''variety'', ''cozy''], [''meal'', ''specialized'', ''cozy''],
      [''meal'', ''quick'', ''cozy''], [''meal'', ''price'', ''cozy'']]"
  by (simp add: quiz_sequences_def quizQuestions_def)

lemma meal_cozy_results:
  "list_all (\<lambda>seq. map_option rtype (determineResult seq) = Some Cafeteria)
     [[''meal'', ''variety'', ''cozy''], [''meal'', ''specialized'', ''cozy''],
      [''meal'', ''quick'', ''cozy''], [''meal'', ''price'', ''cozy'']]"
  by (simp add: determineResult_def quizResults_def category_names)

text \<open>
  C4. \<open>determineResult\<close> is a closure of the quiz component, called only from
  \<open>handleAnswer\<close> after the third answer, so the answer sequences it receives are the
  64 of \<open>quiz_sequences\<close>: one option of each question, in the order of the
  questions. The sequence food, variety, large gives Mercado, and health, specialized,
  professional gives Farmacia. Every sequence of the quiz that contains meal and cozy
  gives Cafeteria, also the one with quick, for which the rule of meal and quick would
  give Lanchonete: the rule for meal and cozy is checked before it. The last part
  states the rule for any list of strings: the joined answers give Cafeteria when they
  include meal and cozy and neither of the two rules checked before applies (they do
  not include health, and do not include food together with variety or price).
\<close>

theorem determineResult_rules:
  "map_option rtype (determineResult [''food'', ''variety'', ''large'']) = Some Mercado
   \<and> map_option rtype (determineResult [''health'', ''specialized'', ''professional''])
       = Some Farmacia
   \<and> (\<forall>seq \<in> set quiz_sequences. ''meal'' \<in> set seq \<and> ''cozy'' \<in> set seq
        \<longrightarrow> map_option rtype (determineResult seq) = Some Cafeteria)
   \<and> (string_includes (join ''-'' userAnswers) ''meal''
        \<and> string_includes (join ''-'' userAnswers) ''cozy''
        \<and> \<not> string_includes (join ''-'' userAnswers) ''health''
        \<and> \<not> (string_includes (join ''-'' userAnswers) ''food''
              \<and> (string_includes (join ''-'' userAnswers) ''variety''
                   \<or> string_includes (join ''-'' userAnswers) ''price''))
        \<longrightarrow> map_option rtype (determineResult userAnswers) = Some Cafeteria)"
proof -
  have mercado: "map_option rtype (determineResult [''food'', ''variety'', ''large'']) = Some Mercado"
    by (simp add: determineResult_def quizResults_def category_names)
  have farmacia:
    "map_option rtype (determineResult [''health'', ''specialized'', ''professional''])
       = Some Farmacia"
    by (simp add: determineResult_def quizResults_def category_names)
  have quiz: "map_option rtype (determineResult seq) = Some Cafeteria"
    if "seq \<in> set quiz_sequences" and "''meal'' \<in> set seq \<and> ''cozy'' \<in> set seq" for seq
  proof -
    from that have
      "seq \<in> set (filter (\<lambda>seq. ''meal'' \<in> set seq \<and> ''cozy'' \<in> set seq) quiz_sequences)"
      by simp
    then have "seq \<in> set [[''meal'', ''variety'', ''cozy''], [''meal'', ''specialized'', ''cozy''],
      [''meal'', ''quick'', ''cozy''], [''meal'', ''price'', ''cozy'']]"
      by (simp only: meal_cozy_sequences)
    with meal_cozy_results show ?thesis
      by (simp only: list_all_iff)
  qed
  have rule: "map_option rtype (determineResult userAnswers) = Some Cafeteria"
    if "string_includes (join ''-'' userAnswers) ''meal''
        \<and> string_includes (join ''-'' userAnswers) ''cozy''
        \<and> \<not> string_includes (join ''-'' userAnswers) ''health''
        \<and> \<not> (string_includes (join ''-'' userAnswers) ''food''
              \<and> (string_includes (join ''-'' userAnswers) ''variety''
                   \<or> string_includes (join ''-'' userAnswers) ''price''))"
    using that by (auto simp: determineResult_def Let_def quizResults_def category_names)
  from mercado farmacia quiz rule show ?thesis by blast
qed

text \<open>
  Witness of C4: meal, quick, cozy is a sequence of the quiz, and Cafeteria wins over
  the Lanchonete of meal and quick; the two answers meal, cozy alone satisfy the
  conditions of the general rule.
\<close>

theorem determineResult_rules_witness:
  "[''meal'', ''quick'', ''cozy''] \<in> set quiz_sequences
   \<and> map_option rtype (determineResult [''meal'', ''quick'', ''cozy'']) = Some Cafeteria
   \<and> string_includes (join ''-'' [''meal'', ''cozy'']) ''meal''
   \<and> string_includes (join ''-'' [''meal'', ''cozy'']) ''cozy''
   \<and> \<not> string_includes (join ''-'' [''meal'', ''cozy'']) ''health''
   \<and> \<not> string_includes (join ''-'' [''meal'', ''cozy'']) ''food''
   \<and> map_option rtype (determineResult [''meal'', ''cozy'']) = Some Cafeteria"
proof -
  have member: "[''meal'', ''quick'', ''cozy''] \<in> set quiz_sequences"
    by (simp add: quiz_sequences_def quizQuestions_def)
  have both: "''meal'' \<in> set [''meal'', ''quick'', ''cozy'']
      \<and> ''cozy'' \<in> set [''meal'', ''quick'', ''cozy'']"
    by simp
  have first: "map_option rtype (determineResult [''meal'', ''quick'', ''cozy'']) = Some Cafeteria"
    using determineResult_rules member both by blast
  have conds: "string_includes (join ''-'' [''meal'', ''cozy'']) ''meal''
     \<and> string_includes (join ''-'' [''meal'', ''cozy'']) ''cozy''
     \<and> \<not> string_includes (join ''-'' [''meal'', ''cozy'']) ''health''
     \<and> \<not> string_includes (join ''-'' [''meal'', ''cozy'']) ''food''"
    by simp
  have second: "map_option rtype (determineResult [''meal'', ''cozy'']) = Some Cafeteria"
    using determineResult_rules [of "[''meal'', ''cozy'']"] conds by blast
  from member first conds second show ?thesis by blast
qed

section \<open>Authentication\<close>

lemma find_no_match:
  "\<not> (\<exists>u \<in> set us. email u = em \<and> password u = pw)
   \<Longrightarrow> find (\<lambda>u. email u = em \<and> password u = pw) us = None"
  by (simp add: find_None_iff)

text \<open>
  C6, as stated, fails in its first part: with the email \<open>a@b.c\<close> stored, registering
  it again with the password \<open>abc\<close> is refused for the length of the password, not as
  a duplicate, because the length is checked before the stored users are read.
\<close>

theorem register_duplicate_counterexample:
  "list_ex (\<lambda>u. email u = ''a@b.c'')
     [\<lparr>email = ''a@b.c'', password = ''secret1'', user_name = ''Ana''\<rparr>]
   \<and> fst (register
        \<lparr>users_item = Users [\<lparr>email = ''a@b.c'', password = ''secret1'', user_name = ''Ana''\<rparr>],
         auth_item = None, writable = True\<rparr>
        ''a@b.c'' ''abc'' ''Ana'')
       = failure ERR_PASSWORD
   \<and> failure ERR_PASSWORD \<noteq> failure ERR_DUPLICATE"
  by (simp add: register_def failure_def ERR_PASSWORD_def ERR_DUPLICATE_def)

text \<open>
  C6, amended. When the call passes the checks made first (no empty field, an \<open>@\<close> in
  the email, a password of at least 6 characters) and the email is already in the
  stored user list, \<open>register\<close> fails with the duplicate-email error and leaves the
  storage as it is. Every password shorter than 6 characters is refused and the storage
  stays as it is. For any two stored user lists in which no user has the given email
  with the given password, \<open>login\<close> returns the same failure, which the email and
  the password alone decide (the message for an empty field, else the one message for
  wrong credentials); so the result for a wrong password is the same whether the email
  is stored or not.
\<close>

theorem register_login_errors:
  "(users_item st = Users us \<and> em \<in> email ` set us \<and> em \<noteq> [] \<and> pw \<noteq> [] \<and> nm \<noteq> []
      \<and> string_includes em ''@'' \<and> 6 \<le> length pw
      \<longrightarrow> register st em pw nm = (failure ERR_DUPLICATE, st))
   \<and> (length pw < 6
      \<longrightarrow> success (fst (register st em pw nm)) = False \<and> snd (register st em pw nm) = st)
   \<and> (users_item st1 = Users us1 \<and> users_item st2 = Users us2
        \<and> \<not> (\<exists>u \<in> set us1. email u = em \<and> password u = pw)
        \<and> \<not> (\<exists>u \<in> set us2. email u = em \<and> password u = pw)
      \<longrightarrow> fst (login st1 em pw) = fst (login st2 em pw)
          \<and> fst (login st1 em pw)
              = (if em = [] \<or> pw = [] then failure ERR_FIELDS else failure ERR_CREDENTIALS)
          \<and> success (fst (login st1 em pw)) = False
          \<and> snd (login st1 em pw) = st1 \<and> snd (login st2 em pw) = st2)"
proof -
  have dup: "register st em pw nm = (failure ERR_DUPLICATE, st)"
    if "users_item st = Users us \<and> em \<in> email ` set us \<and> em \<noteq> [] \<and> pw \<noteq> [] \<and> nm \<noteq> []
      \<and> string_includes em ''@'' \<and> 6 \<le> length pw"
    using that by (auto simp: register_def getStoredUsers_def list_ex_iff)
  have short: "success (fst (register st em pw nm)) = False \<and> snd (register st em pw nm) = st"
    if "length pw < 6"
    using that by (simp add: register_def failure_def split: option.splits)
  have wrong: "fst (login st1 em pw) = fst (login st2 em pw)
          \<and> fst (login st1 em pw)
              = (if em = [] \<or> pw = [] then failure ERR_FIELDS else failure ERR_CREDENTIALS)
          \<and> success (fst (login st1 em pw)) = False
          \<and> snd (login st1 em pw) = st1 \<and> snd (login st2 em pw) = st2"
    if "users_item st1 = Users us1 \<and> users_item st2 = Users us2
        \<and> \<not> (\<exists>u \<in> set us1. email u = em \<and> password u = pw)
        \<and> \<not> (\<exists>u \<in> set us2. email u = em \<and> password u = pw)"
    using that by (simp add: login_def getStoredUsers_def find_no_match failure_def)
  from dup short wrong show ?thesis by blast
qed

text \<open>
  Witness of C6: the user \<open>a@b.c\<close> is stored with the password \<open>secret1\<close>.
  Registering the email again with a valid password is a duplicate; the password
  \<open>abc\<close> is refused; and \<open>login\<close> with the wrong password \<open>wrong-pw\<close> answers the
  same for this storage and for an empty user list.
\<close>

theorem register_login_errors_witness:
  "register
     \<lparr>users_item = Users [\<lparr>email = ''a@b.c'', password = ''secret1'', user_name = ''Ana''\<rparr>],
      auth_item = None, writable = True\<rparr>
     ''a@b.c'' ''secret2'' ''Bia''
   = (failure ERR_DUPLICATE,
      \<lparr>users_item = Users [\<lparr>email = ''a@b.c'', password = ''secret1'', user_name = ''Ana''\<rparr>],
       auth_item = None, writable = True\<rparr>)
   \<and> success (fst (register
        \<lparr>users_item = Users [], auth_item = None, writable = True\<rparr> ''d@e.f'' ''abc'' ''Bia''))
       = False
   \<and> fst (login
        \<lparr>users_item = Users [\<lparr>email = ''a@b.c'', password = ''secret1'', user_name = ''Ana''\<rparr>],
         auth_item = None, writable = True\<rparr>
        ''a@b.c'' ''wrong-pw'')
     = fst (login \<lparr>users_item = Users [], auth_item = None, writable = True\<rparr>
        ''a@b.c'' ''wrong-pw'')"
proof -
  let ?us = "[\<lparr>email = ''a@b.c'', password = ''secret1'', user_name = ''Ana''\<rparr>]"
  let ?st = "\<lparr>users_item = Users ?us, auth_item = None, writable = True\<rparr>"
  let ?empty = "\<lparr>users_item = Users [], auth_item = None, writable = True\<rparr>"
  have stored: "users_item ?st = Users ?us \<and> ''a@b.c'' \<in> email ` set ?us
      \<and> ''a@b.c'' \<noteq> [] \<and> ''secret2'' \<noteq> [] \<and> ''Bia'' \<noteq> []
      \<and> string_includes ''a@b.c'' ''@'' \<and> 6 \<le> length ''secret2''"
    by simp
  have dup: "register ?st ''a@b.c'' ''secret2'' ''Bia'' = (failure ERR_DUPLICATE, ?st)"
    using register_login_errors [of ?st ?us "''a@b.c''" "''secret2''" "''Bia''"] stored
    by blast
  have len: "length ''abc'' < 6"
    by simp
  have short: "success (fst (register ?empty ''d@e.f'' ''abc'' ''Bia'')) = False"
    using register_login_errors [of ?empty _ "''d@e.f''" "''abc''" "''Bia''"] len
    by blast
  have nomatch: "users_item ?st = Users ?us \<and> users_item ?empty = Users []
      \<and> \<not> (\<exists>u \<in> set ?us. email u = ''a@b.c'' \<and> password u = ''wrong-pw'')
      \<and> \<not> (\<exists>u \<in> set []. email u = ''a@b.c'' \<and> password u = ''wrong-pw'')"
    by simp
  have same: "fst (login ?st ''a@b.c'' ''wrong-pw'') = fst (login ?empty ''a@b.c'' ''wrong-pw'')"
    using register_login_errors [of ?st ?us "''a@b.c''" "''wrong-pw''" _ ?st ?us ?empty "[]"]
      nomatch
    by blast
  from dup short same show ?thesis by blast
qed

section \<open>Mock products\<close>





lemma products_for_own:
  "t \<notin> set Object_prototype_keys \<Longrightarrow> products_for t = Inr (case map_of productsByCategory t of Some ps \<Rightarrow> ps | None \<Rightarrow> Mercado_products)"
  by (simp add: products_for_def split: option.splits)





lemma generateRealisticProducts_unfold:
  assumes "products_for (ptype place) = Inr tbl"
    and "sort_random rt (\<lambda>n. random rt (Suc n)) tbl = (shuffled, used)"
  shows "generateRealisticProducts rt place
      = Inr (map (make_product rt place (Suc used))
          (zip (take (3 + nat \<lfloor>double rt (random rt 0 * 3)\<rfloor>) shuffled)
               [0 ..< length (take (3 + nat \<lfloor>double rt (random rt 0 * 3)\<rfloor>) shuffled)]))"
  by (simp add: generateRealisticProducts_def Let_def assms)






section \<open>The mock substitutes and the draws\<close>

lemma products_for_Mercado: "products_for Mercado = Inr Mercado_products"
  by (simp add: products_for_def productsByCategory_def)

lemma first_products:
  "map_sum id (map price) (generateRealisticProducts
     \<lparr>random = (\<lambda>n. real n / 100), sort_random = insertion_sort_random,
      toString = (\<lambda>x. ''1''), double = (\<lambda>x. x)\<rparr>
     \<lparr>pid = ''7'', name = ''Loja'', ptype = Mercado, category = Mercado, distance = 1,
      address = ''Rua A'', coordinates = \<lparr>lat = 0, lng = 0\<rparr>\<rparr>) = Inr [22.16, 7.60, 7.09]"
proof -
  let ?rt = "\<lparr>random = (\<lambda>n. real n / 100), sort_random = insertion_sort_random,
      toString = (\<lambda>x. ''1''), double = (\<lambda>x. x)\<rparr>"
  let ?place = "\<lparr>pid = ''7'', name = ''Loja'', ptype = Mercado, category = Mercado, distance = 1,
      address = ''Rua A'', coordinates = \<lparr>lat = 0, lng = 0\<rparr>\<rparr>"
  have pf: "products_for (ptype ?place) = Inr Mercado_products"
    by (simp add: products_for_Mercado)
  have "sort_random ?rt (\<lambda>n. random ?rt (Suc n)) Mercado_products = (Mercado_products, 9)"
    by (simp add: insertion_sort_random_def Mercado_products_def)
  from generateRealisticProducts_unfold [OF pf this] show ?thesis
    by (simp add: Mercado_products_def make_product_def js_round_def upt_conv_Cons)
qed

lemma second_products:
  "map_sum id (map price) (generateRealisticProducts
     \<lparr>random = (\<lambda>n. real (13 + n) / 100), sort_random = insertion_sort_random,
      toString = (\<lambda>x. ''1''), double = (\<lambda>x. x)\<rparr>
     \<lparr>pid = ''7'', name = ''Loja'', ptype = Mercado, category = Mercado, distance = 1,
      address = ''Rua A'', coordinates = \<lparr>lat = 0, lng = 0\<rparr>\<rparr>) = Inr [23.46, 8.04, 7.51]"
proof -
  let ?rt = "\<lparr>random = (\<lambda>n. real (13 + n) / 100), sort_random = insertion_sort_random,
      toString = (\<lambda>x. ''1''), double = (\<lambda>x. x)\<rparr>"
  let ?place = "\<lparr>pid = ''7'', name = ''Loja'', ptype = Mercado, category = Mercado, distance = 1,
      address = ''Rua A'', coordinates = \<lparr>lat = 0, lng = 0\<rparr>\<rparr>"
  have pf: "products_for (ptype ?place) = Inr Mercado_products"
    by (simp add: products_for_Mercado)
  have "sort_random ?rt (\<lambda>n. random ?rt (Suc n)) Mercado_products = (Mercado_products, 9)"
    by (simp add: insertion_sort_random_def Mercado_products_def)
  from generateRealisticProducts_unfold [OF pf this] show ?thesis
    by (simp add: Mercado_products_def make_product_def js_round_def upt_conv_Cons)
qed

text \<open>
  C2, as stated, fails. The draws of \<open>Math.random\<close> are 0, 0.01, 0.02 and so on. A
  first call of \<open>getMockPlaces\<close> takes 16 of them, so a second call for the same
  coordinates begins at the draw 0.16, and the coordinates of its places differ. A first
  call of \<open>generateRealisticProducts\<close> takes 13 draws and prices its three products
  22.16, 7.60, 7.09; the second call for the same place prices them 23.46, 8.04, 7.51.
\<close>

theorem mock_substitute_counterexample:
  "getMockPlaces
     \<lparr>random = (\<lambda>n. real n / 100), sort_random = insertion_sort_random,
      toString = (\<lambda>x. ''1''), double = (\<lambda>x. x)\<rparr>
     \<lparr>lat = 0, lng = 0\<rparr>
   \<noteq> getMockPlaces
     \<lparr>random = (\<lambda>n. real (16 + n) / 100), sort_random = insertion_sort_random,
      toString = (\<lambda>x. ''1''), double = (\<lambda>x. x)\<rparr>
     \<lparr>lat = 0, lng = 0\<rparr>
   \<and> generateRealisticProducts
     \<lparr>random = (\<lambda>n. real n / 100), sort_random = insertion_sort_random,
      toString = (\<lambda>x. ''1''), double = (\<lambda>x. x)\<rparr>
     \<lparr>pid = ''7'', name = ''Loja'', ptype = Mercado, category = Mercado, distance = 1,
      address = ''Rua A'', coordinates = \<lparr>lat = 0, lng = 0\<rparr>\<rparr>
   \<noteq> generateRealisticProducts
     \<lparr>random = (\<lambda>n. real (13 + n) / 100), sort_random = insertion_sort_random,
      toString = (\<lambda>x. ''1''), double = (\<lambda>x. x)\<rparr>
     \<lparr>pid = ''7'', name = ''Loja'', ptype = Mercado, category = Mercado, distance = 1,
      address = ''Rua A'', coordinates = \<lparr>lat = 0, lng = 0\<rparr>\<rparr>"
proof
  show "getMockPlaces
     \<lparr>random = (\<lambda>n. real n / 100), sort_random = insertion_sort_random,
      toString = (\<lambda>x. ''1''), double = (\<lambda>x. x)\<rparr>
     \<lparr>lat = 0, lng = 0\<rparr>
   \<noteq> getMockPlaces
     \<lparr>random = (\<lambda>n. real (16 + n) / 100), sort_random = insertion_sort_random,
      toString = (\<lambda>x. ''1''), double = (\<lambda>x. x)\<rparr>
     \<lparr>lat = 0, lng = 0\<rparr>"
    by (simp add: getMockPlaces_def mockData_def mock_place_def upt_8)
  show "generateRealisticProducts
     \<lparr>random = (\<lambda>n. real n / 100), sort_random = insertion_sort_random,
      toString = (\<lambda>x. ''1''), double = (\<lambda>x. x)\<rparr>
     \<lparr>pid = ''7'', name = ''Loja'', ptype = Mercado, category = Mercado, distance = 1,
      address = ''Rua A'', coordinates = \<lparr>lat = 0, lng = 0\<rparr>\<rparr>
   \<noteq> generateRealisticProducts
     \<lparr>random = (\<lambda>n. real (13 + n) / 100), sort_random = insertion_sort_random,
      toString = (\<lambda>x. ''1''), double = (\<lambda>x. x)\<rparr>
     \<lparr>pid = ''7'', name = ''Loja'', ptype = Mercado, category = Mercado, distance = 1,
      address = ''Rua A'', coordinates = \<lparr>lat = 0, lng = 0\<rparr>\<rparr>"
  proof
    assume "generateRealisticProducts
     \<lparr>random = (\<lambda>n. real n / 100), sort_random = insertion_sort_random,
      toString = (\<lambda>x. ''1''), double = (\<lambda>x. x)\<rparr>
     \<lparr>pid = ''7'', name = ''Loja'', ptype = Mercado, category = Mercado, distance = 1,
      address = ''Rua A'', coordinates = \<lparr>lat = 0, lng = 0\<rparr>\<rparr>
   = generateRealisticProducts
     \<lparr>random = (\<lambda>n. real (13 + n) / 100), sort_random = insertion_sort_random,
      toString = (\<lambda>x. ''1''), double = (\<lambda>x. x)\<rparr>
     \<lparr>pid = ''7'', name = ''Loja'', ptype = Mercado, category = Mercado, distance = 1,
      address = ''Rua A'', coordinates = \<lparr>lat = 0, lng = 0\<rparr>\<rparr>"
    then have "(Inr [22.16, 7.60, 7.09] :: js_error + real list) = Inr [23.46, 8.04, 7.51]"
      by (simp only: first_products [symmetric] second_products [symmetric])
    then show False by simp
  qed
qed

lemma make_product_fixed_fields:
  "map (\<lambda>q. (product_id q, store q, product_distance q, product_category q, isReal q))
     (map (make_product rt place k) (zip xs [m ..< m + length xs]))
   = map (\<lambda>i. (pid place @ ''-'' @ toString rt (of_nat i), name place,
               toString rt (distance place) @ '' km'', ptype place, Some False))
       [m ..< m + length xs]"
proof (induction xs arbitrary: m)
  case Nil
  then show ?case by simp
next
  case (Cons x xs)
  have "m < m + length (x # xs)" by simp
  from upt_conv_Cons [OF this]
  have "[m ..< m + length (x # xs)] = m # [Suc m ..< Suc m + length xs]"
    by simp
  with Cons [of "Suc m"] show ?case by (simp add: make_product_def Let_def)
qed

text \<open>
  C2, amended. The mock substitutes depend on the draws of \<open>Math.random\<close>, and only
  where the draws enter. \<open>getMockPlaces\<close> returns 8 places whose id, name, type,
  category, distance and address are the same whatever the draws are; the draws decide
  the coordinates. In what \<open>generateRealisticProducts\<close> returns, the id, store,
  distance text, category and \<open>isReal\<close> flag of a product are fixed by the place and
  the position of the product; the draws decide the number of products, their names
  and their prices.
\<close>

theorem mock_substitute_fixed_fields:
  "length (getMockPlaces rt coords) = 8
   \<and> map (\<lambda>p. (pid p, name p, ptype p, category p, distance p, address p))
        (getMockPlaces (rt\<lparr>random := draws\<rparr>) coords)
     = map (\<lambda>p. (pid p, name p, ptype p, category p, distance p, address p))
        (getMockPlaces rt coords)
   \<and> (generateRealisticProducts rt place = Inr ps
      \<longrightarrow> map (\<lambda>q. (product_id q, store q, product_distance q, product_category q, isReal q)) ps
        = map (\<lambda>i. (pid place @ ''-'' @ toString rt (of_nat i), name place,
                     toString rt (distance place) @ '' km'', ptype place, Some False))
           [0 ..< length ps])"
proof -
  have places: "map (\<lambda>p. (pid p, name p, ptype p, category p, distance p, address p))
        (getMockPlaces (rt\<lparr>random := draws\<rparr>) coords)
     = map (\<lambda>p. (pid p, name p, ptype p, category p, distance p, address p))
        (getMockPlaces rt coords)"
    by (simp add: getMockPlaces_def mock_place_def split_def)
  have fixed: "map (\<lambda>q. (product_id q, store q, product_distance q, product_category q, isReal q)) ps
        = map (\<lambda>i. (pid place @ ''-'' @ toString rt (of_nat i), name place,
                     toString rt (distance place) @ '' km'', ptype place, Some False))
           [0 ..< length ps]"
    if gen: "generateRealisticProducts rt place = Inr ps"
  proof -
    from gen obtain tbl where pf: "products_for (ptype place) = Inr tbl"
      by (cases "products_for (ptype place)") (simp_all add: generateRealisticProducts_def)
    obtain shuffled used where
      sr: "sort_random rt (\<lambda>n. random rt (Suc n)) tbl = (shuffled, used)"
      by (cases "sort_random rt (\<lambda>n. random rt (Suc n)) tbl")
    define sel where "sel = take (3 + nat \<lfloor>double rt (random rt 0 * 3)\<rfloor>) shuffled"
    have "generateRealisticProducts rt place
        = Inr (map (make_product rt place (Suc used)) (zip sel [0 ..< length sel]))"
      unfolding sel_def by (rule generateRealisticProducts_unfold [OF pf sr])
    with gen have ps: "ps = map (make_product rt place (Suc used)) (zip sel [0 ..< length sel])"
      by simp
    from make_product_fixed_fields [of rt place "Suc used" sel 0] show ?thesis
      by (simp add: ps)
  qed
  from length_getMockPlaces [of rt coords] places fixed show ?thesis by blast
qed

text \<open>
  Witness of C2: the four products of a Mercado place, with every draw 0.375. The
  number conversion of this runtime prints the numbers 0, 1 and 2 and prints every
  other number as \<open>3\<close>.
\<close>

theorem mock_substitute_fixed_fields_witness:
  "\<exists>ps. generateRealisticProducts
       \<lparr>random = (\<lambda>n. 3 / 8), sort_random = insertion_sort_random,
      toString = (\<lambda>x. if x = 0 then ''0'' else if x = 1 then ''1'' else if x = 2 then ''2'' else ''3''), double = (\<lambda>x. x)\<rparr>
       \<lparr>pid = ''7'', name = ''Loja'', ptype = Mercado, category = Mercado, distance = 1,
      address = ''Rua A'', coordinates = \<lparr>lat = 0, lng = 0\<rparr>\<rparr> = Inr ps
   \<and> map (\<lambda>q. (product_id q, store q, product_distance q, product_category q, isReal q)) ps
     = [(''7-0'', ''Loja'', ''1 km'', Mercado, Some False),
        (''7-1'', ''Loja'', ''1 km'', Mercado, Some False),
        (''7-2'', ''Loja'', ''1 km'', Mercado, Some False),
        (''7-3'', ''Loja'', ''1 km'', Mercado, Some False)]"
proof -
  let ?rt = "\<lparr>random = (\<lambda>n. 3 / 8), sort_random = insertion_sort_random,
      toString = (\<lambda>x. if x = 0 then ''0'' else if x = 1 then ''1'' else if x = 2 then ''2'' else ''3''), double = (\<lambda>x. x)\<rparr>"
  let ?place = "\<lparr>pid = ''7'', name = ''Loja'', ptype = Mercado, category = Mercado, distance = 1,
      address = ''Rua A'', coordinates = \<lparr>lat = 0, lng = 0\<rparr>\<rparr>"
  have pf: "products_for (ptype ?place) = Inr Mercado_products"
    by (simp add: products_for_Mercado)
  have sr: "sort_random ?rt (\<lambda>n. random ?rt (Suc n)) Mercado_products = (Mercado_products, 9)"
    by (simp add: insertion_sort_random_def Mercado_products_def)
  define ps where "ps = map (make_product ?rt ?place 10) (zip (take 4 Mercado_products) [0 ..< 4])"
  have gen: "generateRealisticProducts ?rt ?place = Inr ps"
    using generateRealisticProducts_unfold [OF pf sr]
    by (simp add: ps_def Mercado_products_def upt_conv_Cons)
  have len: "length ps = 4"
    by (simp add: ps_def Mercado_products_def)
  from mock_substitute_fixed_fields [of ?rt undefined undefined ?place ps] gen
  have "map (\<lambda>q. (product_id q, store q, product_distance q, product_category q, isReal q)) ps
     = map (\<lambda>i. (pid ?place @ ''-'' @ toString ?rt (of_nat i), name ?place,
                  toString ?rt (distance ?place) @ '' km'', ptype ?place, Some False))
        [0 ..< length ps]"
    by blast
  then have fixed:
    "map (\<lambda>q. (product_id q, store q, product_distance q, product_category q, isReal q)) ps
     = [(''7-0'', ''Loja'', ''1 km'', Mercado, Some False),
        (''7-1'', ''Loja'', ''1 km'', Mercado, Some False),
        (''7-2'', ''Loja'', ''1 km'', Mercado, Some False),
        (''7-3'', ''Loja'', ''1 km'', Mercado, Some False)]"
    by (simp add: len upt_conv_Cons)
  show ?thesis
    by (rule exI [of _ ps]) (intro conjI gen fixed)
qed

section \<open>Postal-code validation\<close>

text \<open>
  C3, as stated, fails: \<open>12345-678\<close> has 9 characters and one of them is not a digit,
  yet it is not rejected. The hyphen is removed, ViaCEP is asked for \<open>12345678\<close>, and
  with an answer from ViaCEP the result is an address, not \<open>null\<close>.
\<close>

theorem getAddressFromCEP_counterexample:
  "length ''12345-678'' \<noteq> 8
   \<and> \<not> list_all is_digit ''12345-678''
   \<and> fst (getAddressFromCEP
        (\<lambda>url. ViaData \<lparr>v_cep = ''12345-678'', logradouro = ''Rua A'', localidade = ''Cidade'',
                           uf = ''SP'', bairro = ''Centro''\<rparr>)
        (\<lambda>addr. NomRejected) ''12345-678'') \<noteq> None
   \<and> snd (getAddressFromCEP
        (\<lambda>url. ViaData \<lparr>v_cep = ''12345-678'', logradouro = ''Rua A'', localidade = ''Cidade'',
                           uf = ''SP'', bairro = ''Centro''\<rparr>)
        (\<lambda>addr. NomRejected) ''12345-678'')
     = [ViaCEP ''https://viacep.com.br/ws/12345678/json/'',
        Nominatim ''Rua A, Cidade, SP, Brasil'']"
  by (simp add: getAddressFromCEP_def is_digit_def viacep_url_def getCoordinatesFromAddress_def)

text \<open>
  C3, amended. \<open>getAddressFromCEP\<close> first removes every character that is not a
  digit. When the digits that remain are not exactly 8, it returns \<open>null\<close> without any
  network call. When they are exactly 8, its first request is the ViaCEP lookup of these
  8 digits; so only 8-digit codes reach the external lookup.
\<close>

theorem getAddressFromCEP_validation:
  "(length (filter is_digit input) \<noteq> 8
      \<longrightarrow> getAddressFromCEP via nom input = (None, []))
   \<and> (length (filter is_digit input) = 8
      \<longrightarrow> (\<exists>rest. snd (getAddressFromCEP via nom input)
             = ViaCEP (viacep_url (filter is_digit input)) # rest))
   \<and> list_all is_digit (filter is_digit input)"
proof -
  have reject: "getAddressFromCEP via nom input = (None, [])"
    if "length (filter is_digit input) \<noteq> 8"
    using that by (simp add: getAddressFromCEP_def)
  have lookup: "\<exists>rest. snd (getAddressFromCEP via nom input)
             = ViaCEP (viacep_url (filter is_digit input)) # rest"
    if "length (filter is_digit input) = 8"
    using that by (auto simp: getAddressFromCEP_def Let_def split: viacep.splits prod.splits)
  have digits: "list_all is_digit (filter is_digit input)"
    by (simp add: list_all_iff)
  from reject lookup digits show ?thesis by blast
qed

text \<open>
  Witness of C3: \<open>1234-56\<close> keeps 6 digits and is rejected without a request;
  \<open>01310-100\<close> keeps 8 digits and ViaCEP is asked for \<open>01310100\<close>.
\<close>

theorem getAddressFromCEP_validation_witness:
  "getAddressFromCEP (\<lambda>url. ViaErro) (\<lambda>addr. NomRejected) ''1234-56'' = (None, [])
   \<and> (\<exists>rest. snd (getAddressFromCEP (\<lambda>url. ViaErro) (\<lambda>addr. NomRejected) ''01310-100'')
         = ViaCEP ''https://viacep.com.br/ws/01310100/json/'' # rest)"
proof -
  have short: "length (filter is_digit ''1234-56'') \<noteq> 8"
    by (simp add: is_digit_def)
  have eight: "length (filter is_digit ''01310-100'') = 8"
    by (simp add: is_digit_def)
  have url: "viacep_url (filter is_digit ''01310-100'') = ''https://viacep.com.br/ws/01310100/json/''"
    by (simp add: is_digit_def viacep_url_def)
  have rejected: "getAddressFromCEP (\<lambda>url. ViaErro) (\<lambda>addr. NomRejected) ''1234-56'' = (None, [])"
    using getAddressFromCEP_validation [of "''1234-56''" "\<lambda>url. ViaErro" "\<lambda>addr. NomRejected"]
      short
    by blast
  have asked: "\<exists>rest. snd (getAddressFromCEP (\<lambda>url. ViaErro) (\<lambda>addr. NomRejected) ''01310-100'')
         = ViaCEP (viacep_url (filter is_digit ''01310-100'')) # rest"
    using getAddressFromCEP_validation [of "''01310-100''" "\<lambda>url. ViaErro" "\<lambda>addr. NomRejected"]
      eight
    by blast
  from rejected asked show ?thesis by (simp only: url) 
qed

section \<open>Attaching products\<close>

lemma zip_batch:
  assumes "i < length places"
  shows "zip [i ..< length places] (drop i places)
     = zip [i ..< i + length (slice i (i + batchSize) places)] (slice i (i + batchSize) places)
       @ zip [i + batchSize ..< length places] (drop (i + batchSize) places)"
proof (cases "i + batchSize \<le> length places")
  case True
  then have len: "length (slice i (i + batchSize) places) = batchSize"
    by (simp add: slice_def)
  have idx: "[i ..< length places] = [i ..< i + batchSize] @ [i + batchSize ..< length places]"
    using True by (metis le_add1 upt_add_eq_append le_Suc_ex)
  have "drop (i + batchSize) places = drop batchSize (drop i places)"
    by (simp add: add.commute)
  then have els: "drop i places = slice i (i + batchSize) places @ drop (i + batchSize) places"
    by (simp only: slice_def add_diff_cancel_left' append_take_drop_id)
  have "zip ([i ..< i + batchSize] @ [i + batchSize ..< length places])
            (slice i (i + batchSize) places @ drop (i + batchSize) places)
        = zip [i ..< i + batchSize] (slice i (i + batchSize) places)
          @ zip [i + batchSize ..< length places] (drop (i + batchSize) places)"
    by (rule zip_append) (simp add: len)
  then show ?thesis using idx els len by simp
next
  case False
  then have all: "slice i (i + batchSize) places = drop i places"
    by (simp add: slice_def)
  from False have "[i + batchSize ..< length places] = []" by simp
  moreover have "i + length (drop i places) = length places" using assms by simp
  ultimately show ?thesis by (simp add: all)
qed

lemma promise_all_map_Inr: "promise_all (map Inr xs) = Inr xs"
  by (induction xs) simp_all

lemma promise_all_Inr: "promise_all rs = Inr xs \<Longrightarrow> rs = map Inr xs"
proof (induction rs arbitrary: xs)
  case Nil
  then show ?case by simp
next
  case (Cons r rs)
  show ?case
  proof (cases r)
    case (Inl e)
    with Cons.prems show ?thesis by simp
  next
    case (Inr x)
    with Cons.prems obtain ys where ys: "promise_all rs = Inr ys" and xs: "xs = x # ys"
      by (auto split: sum.splits)
    from Cons.IH [OF ys] Inr xs show ?thesis by simp
  qed
qed

text \<open>When the loop returns, it has mapped the callback over the places, in their order.\<close>

lemma batch_loop_map:
  "batch_loop f places i acc = Inr stores
   \<Longrightarrow> map Inr stores = map Inr acc @ map f (zip [i ..< length places] (drop i places))"
proof (induction f places i acc rule: batch_loop.induct)
  case (1 f places i acc)
  show ?case
  proof (cases "i < length places")
    case True
    let ?batch = "slice i (i + batchSize) places"
    from "1.prems" True obtain batchResults where
      pa: "promise_all (map f (zip [i ..< i + length ?batch] ?batch)) = Inr batchResults"
      and rest: "batch_loop f places (i + batchSize) (acc @ batchResults) = Inr stores"
      by (auto simp: batch_loop.simps [of f places i acc] Let_def split: sum.splits)
    from pa have br: "map f (zip [i ..< i + length ?batch] ?batch) = map Inr batchResults"
      by (simp add: promise_all_Inr)
    from "1.IH" [OF True refl pa rest]
    have "map Inr stores = map Inr (acc @ batchResults)
        @ map f (zip [i + batchSize ..< length places] (drop (i + batchSize) places))" .
    then show ?thesis by (simp add: zip_batch [OF True] br)
  next
    case False
    with "1.prems" show ?thesis by (simp add: batch_loop.simps [of f places i acc])
  qed
qed

lemma truncate_with_mock_products:
  "with_mock_products rt first p = Inr s \<Longrightarrow> Place.truncate s = p"
  by (auto simp: with_mock_products_def Place.truncate_def Place.extend_def split: sum.splits)

lemma truncate_attach: "attach rt ai start cityName (k, p) = Inr s \<Longrightarrow> Place.truncate s = p"
  by (auto simp: attach_def try_mock_products_def Place.truncate_def Place.extend_def
        dest: truncate_with_mock_products split: ai_outcome.splits if_splits sum.splits)

lemma map_truncate_attach:
  "length ks = length ps
   \<Longrightarrow> map (attach rt ai start cityName) (zip ks ps) = map Inr stores
   \<Longrightarrow> map Place.truncate stores = ps"
proof (induction ks ps arbitrary: stores rule: list_induct2)
  case Nil
  then show ?case by simp
next
  case (Cons k ks p ps)
  then show ?case by (cases stores) (auto dest: truncate_attach)
qed

lemma fields_of_truncate:
  fixes stores :: "StoreWithProducts list"
  assumes "map Place.truncate stores = places"
  shows "map pid stores = map pid places \<and> map name stores = map name places
    \<and> map ptype stores = map ptype places \<and> map category stores = map category places
    \<and> map distance stores = map distance places \<and> map address stores = map address places
    \<and> map coordinates stores = map coordinates places"
proof -
  have "map pid places = map pid stores \<and> map name places = map name stores
    \<and> map ptype places = map ptype stores \<and> map category places = map category stores
    \<and> map distance places = map distance stores \<and> map address places = map address stores
    \<and> map coordinates places = map coordinates stores"
    unfolding assms [symmetric] by (simp add: Place.truncate_def)
  then show ?thesis by simp
qed

text \<open>
  Whenever \<open>addRealProductsToPlaces\<close> returns, it returns one store for each place,
  in the order of the places, and each store has the id, name, type, category,
  distance, address and coordinates of its place.
\<close>

lemma addRealProductsToPlaces_frame:
  assumes "addRealProductsToPlaces rt ai start places cityName = Inr stores"
  shows "length stores = length places
   \<and> map Place.truncate stores = places
   \<and> map pid stores = map pid places
   \<and> map name stores = map name places
   \<and> map ptype stores = map ptype places
   \<and> map category stores = map category places
   \<and> map distance stores = map distance places
   \<and> map address stores = map address places
   \<and> map coordinates stores = map coordinates places"
proof -
  from batch_loop_map [OF assms [unfolded addRealProductsToPlaces_def]]
  have "map Inr stores
      = map (attach rt ai start cityName) (zip [0 ..< length places] places)"
    by simp
  then have "map (attach rt ai start cityName) (zip [0 ..< length places] places)
      = map Inr stores"
    by (rule sym)
  with map_truncate_attach [of "[0 ..< length places]" places rt ai start cityName stores]
  have t: "map Place.truncate stores = places"
    by simp
  then have l: "length stores = length places"
    by (metis length_map)
  from t l fields_of_truncate [OF t] show ?thesis by simp
qed

text \<open>
  It returns for every list in which no place has a type that names a member inherited
  from \<open>Object.prototype\<close>, whatever the price lookups answer.
\<close>

lemma all_Inr_map:
  "\<forall>x \<in> set xs. \<exists>s. f x = Inr s \<Longrightarrow> \<exists>ys. map f xs = map Inr ys"
proof (induction xs)
  case Nil
  then show ?case by simp
next
  case (Cons x xs)
  then obtain s ys where "f x = Inr s" and "map f xs = map Inr ys" by auto
  then have "map f (x # xs) = map Inr (s # ys)" by simp
  then show ?case by blast
qed

lemma batch_loop_returns:
  "\<forall>kp \<in> set (zip [i ..< length places] (drop i places)). \<exists>s. f kp = Inr s
   \<Longrightarrow> \<exists>stores. batch_loop f places i acc = Inr stores"
proof (induction f places i acc rule: batch_loop.induct)
  case (1 f places i acc)
  show ?case
  proof (cases "i < length places")
    case True
    let ?batch = "slice i (i + batchSize) places"
    from "1.prems" have both:
      "\<forall>kp \<in> set (zip [i ..< i + length ?batch] ?batch
                     @ zip [i + batchSize ..< length places] (drop (i + batchSize) places)).
         \<exists>s. f kp = Inr s"
      by (simp only: zip_batch [OF True])
    then have "\<forall>kp \<in> set (zip [i ..< i + length ?batch] ?batch). \<exists>s. f kp = Inr s"
      by simp
    from all_Inr_map [OF this] obtain ys where
      "map f (zip [i ..< i + length ?batch] ?batch) = map Inr ys" ..
    then have pa: "promise_all (map f (zip [i ..< i + length ?batch] ?batch)) = Inr ys"
      by (simp only: promise_all_map_Inr)
    from both have
      "\<forall>kp \<in> set (zip [i + batchSize ..< length places] (drop (i + batchSize) places)).
         \<exists>s. f kp = Inr s"
      by simp
    from "1.IH" [OF True refl pa this]
    obtain stores where "batch_loop f places (i + batchSize) (acc @ ys) = Inr stores" ..
    with pa True have "batch_loop f places i acc = Inr stores"
      by (simp add: batch_loop.simps [of f places i acc] Let_def)
    then show ?thesis ..
  next
    case False
    then show ?thesis by (simp add: batch_loop.simps [of f places i acc])
  qed
qed

lemma generateRealisticProducts_returns:
  "ptype place \<notin> set Object_prototype_keys \<Longrightarrow> \<exists>ps. generateRealisticProducts rt place = Inr ps"
  by (simp add: generateRealisticProducts_def products_for_own Let_def split_def)

lemma attach_returns:
  assumes "ptype place \<notin> set Object_prototype_keys"
  shows "\<exists>s. attach rt ai start cityName (k, place) = Inr s"
proof -
  have mock: "\<exists>s. with_mock_products rt first place = Inr s" for first
  proof -
    have "ptype place \<notin> set Object_prototype_keys" by (rule assms)
    from generateRealisticProducts_returns [OF this, of "rt\<lparr>random := \<lambda>n. random rt (first + n)\<rparr>"]
    show ?thesis by (auto simp: with_mock_products_def)
  qed
  then have "\<exists>s. try_mock_products rt first place = Inr s" for first
    by (auto simp: try_mock_products_def split: sum.splits)
  with mock show ?thesis
    by (auto simp: attach_def split: ai_outcome.splits)
qed

lemma addRealProductsToPlaces_returns:
  assumes "\<forall>p \<in> set places. ptype p \<notin> set Object_prototype_keys"
  shows "\<exists>stores. addRealProductsToPlaces rt ai start places cityName = Inr stores"
proof -
  have "\<exists>s. attach rt ai start cityName kp = Inr s"
    if "kp \<in> set (zip [0 ..< length places] (drop 0 places))" for kp
  proof -
    obtain k p where kp: "kp = (k, p)" by (cases kp)
    with that have "p \<in> set places" by (auto dest: set_zip_rightD)
    with assms have "ptype p \<notin> set Object_prototype_keys" by blast
    from attach_returns [OF this] kp show ?thesis by simp
  qed
  then show ?thesis
    unfolding addRealProductsToPlaces_def by (intro batch_loop_returns) blast
qed


end
